(* ===== verification/Prelude.thy ===== *)
theory Prelude
  imports Complex_Main
begin

text \<open>
  Shared vocabulary of the development: the Python exceptions the modelled code can
  raise (a value of \<open>py_exc\<close>, carried on the left of a sum), Python's \<open>str\<close>-or-\<open>None\<close>
  values, the builtin string operations the code calls (\<open>str.strip\<close>, the substring test
  of \<open>in\<close>), and list lemmas the components share. The collection \<open>res_simps\<close> gathers
  the facts that evaluate a component's result through its exception branches.
\<close>

named_theorems res_simps "equations that evaluate a modelled operation branch by branch"

section \<open>Python exceptions and values\<close>

text \<open>
  Every exception the modelled code can raise and not catch. \<open>DbError\<close> is
  \<open>psycopg2.Error\<close> carrying its message.
\<close>

datatype py_exc =
    TypeError
  | AttributeError
  | KeyError
  | ValueError
  | FileNotFoundError
  | EOFError
  | DbError string

type_synonym 'a pyres = "py_exc + 'a"

text \<open>
  How a process run ends: normally, or by an uncaught exception (a traceback), with the
  effects made before it kept.
\<close>

datatype outcome = Finished | Crashed py_exc

text \<open>
  Sequencing of statements that may raise: the first exception propagates, as it does
  through a Python function body.
\<close>

definition res_bind :: "'e + 'a \<Rightarrow> ('a \<Rightarrow> 'e + 'b) \<Rightarrow> 'e + 'b" where
  "res_bind r f = (case r of Inl e \<Rightarrow> Inl e | Inr x \<Rightarrow> f x)"

text \<open>A Python value that is a \<open>str\<close> or \<open>None\<close> (the \<open>.text\<close> of an XML element).\<close>

type_synonym pystr = "string option"

section \<open>Builtin string operations\<close>

text \<open>
  \<open>str.isspace\<close> on one character, a \<open>char\<close> read as the code point of its value
  (0 to 255): space, \<open>\t \n \v \f \r\<close>, the separators \<open>\x1c\<close> to \<open>\x1f\<close>,
  \<open>\x85\<close> (NEL) and \<open>\xa0\<close> (no-break space).
\<close>

definition py_isspace :: "char \<Rightarrow> bool" where
  "py_isspace c \<longleftrightarrow>
     of_char c = (32::nat) \<or> (9 \<le> (of_char c::nat) \<and> (of_char c::nat) \<le> 13)
     \<or> (28 \<le> (of_char c::nat) \<and> (of_char c::nat) \<le> 31)
     \<or> of_char c = (133::nat) \<or> of_char c = (160::nat)"

text \<open>\<open>str.strip()\<close> with no argument.\<close>

definition py_strip :: "string \<Rightarrow> string" where
  "py_strip s = rev (dropWhile py_isspace (rev (dropWhile py_isspace s)))"

text \<open>\<open>k in s\<close> for two strings: \<open>k\<close> occurs as a contiguous part of \<open>s\<close>.\<close>

fun py_substr :: "string \<Rightarrow> string \<Rightarrow> bool" where
  "py_substr k [] = (k = [])"
| "py_substr k (c # s) = (take (length k) (c # s) = k \<or> py_substr k s)"

section \<open>Shared lemmas\<close>

lemma res_bind_simps [simp, res_simps]:
  "res_bind (Inl e) f = Inl e"
  "res_bind (Inr x) f = f x"
  by (simp_all add: res_bind_def)

lemma res_bind_assoc: "res_bind (res_bind r f) g = res_bind r (\<lambda>x. res_bind (f x) g)"
  by (cases r) auto

lemma res_bind_Inr_iff: "res_bind r f = Inr y \<longleftrightarrow> (\<exists>x. r = Inr x \<and> f x = Inr y)"
  by (cases r) auto

lemma py_substr_iff: "py_substr k s \<longleftrightarrow> (\<exists>us vs. s = us @ k @ vs)"
proof (induction s)
  case Nil
  then show ?case by simp
next
  case (Cons c s)
  have "take (length k) (c # s) = k \<longleftrightarrow> (\<exists>vs. c # s = k @ vs)"
    by (metis append_eq_conv_conj)
  moreover have "(\<exists>us vs. c # s = us @ k @ vs) \<longleftrightarrow>
                 (\<exists>vs. c # s = k @ vs) \<or> (\<exists>us vs. s = us @ k @ vs)"
    by (auto simp: Cons_eq_append_conv)
  ultimately show ?case using Cons.IH by simp
qed

lemma py_substr_self [simp]: "py_substr k k"
  by (simp add: py_substr_iff) (metis append.left_neutral append_Nil2)

text \<open>\<open>len(xs) == len(set(xs))\<close> is the test for pairwise distinct elements.\<close>

lemma length_eq_card_set_iff [simp]: "length xs = card (set xs) \<longleftrightarrow> distinct xs"
  using card_distinct distinct_card by metis

lemma find_Some_filter:
  "find P xs = (case filter P xs of [] \<Rightarrow> None | y # _ \<Rightarrow> Some y)"
  by (induction xs) auto

end
