(* ===== verification/Xml.thy ===== *)
theory Xml
  imports Prelude
begin

text \<open>
  The part of Python's \<open>xml.etree.ElementTree\<close> that \<open>src/src/downloader/setup.py\<close>
  uses: an element has a tag, a \<open>.text\<close> that is a string or \<open>None\<close> (ElementTree
  gives \<open>None\<close> for an element with no character data, never the empty string), and its
  child elements in document order. \<open>findall(tag)\<close> with a plain tag name selects the
  direct children with that tag; \<open>find(tag)\<close> the first of them or \<open>None\<close>; iterating
  an element iterates its children. The parser \<open>ET.fromstring\<close> is a library the code
  only calls; it enters the model as a parameter of type \<open>string \<Rightarrow> element option\<close>
  (\<open>None\<close> is \<open>ET.ParseError\<close>).
\<close>

datatype element = Element (tag: string) (elem_text: pystr) (children: "element list")

definition findall :: "element \<Rightarrow> string \<Rightarrow> element list" where
  "findall e t = filter (\<lambda>c. tag c = t) (children e)"

definition find :: "element \<Rightarrow> string \<Rightarrow> element option" where
  "find e t = List.find (\<lambda>c. tag c = t) (children e)"

text \<open>\<open>e.find(t).text\<close>: \<open>AttributeError\<close> when there is no such child.\<close>

definition find_text :: "element \<Rightarrow> string \<Rightarrow> pystr pyres" where
  "find_text e t = (case find e t of None \<Rightarrow> Inl AttributeError | Some c \<Rightarrow> Inr (elem_text c))"

text \<open>
  What the parser produces: no element's text is the empty string, at any depth.
\<close>

fun et_wf :: "element \<Rightarrow> bool" where
  "et_wf (Element t x cs) \<longleftrightarrow> x \<noteq> Some [] \<and> (\<forall>c \<in> set cs. et_wf c)"

text \<open>
  Adding a child: \<open>append_child c e\<close> is \<open>e\<close> with \<open>c\<close> appended to its children, and
  \<open>add_to_block t c d\<close> appends \<open>c\<close> to every child of \<open>d\<close> tagged \<open>t\<close>.
\<close>

definition append_child :: "element \<Rightarrow> element \<Rightarrow> element" where
  "append_child c e = Element (tag e) (elem_text e) (children e @ [c])"

definition add_to_block :: "string \<Rightarrow> element \<Rightarrow> element \<Rightarrow> element" where
  "add_to_block t c d =
     Element (tag d) (elem_text d) (map (\<lambda>e. if tag e = t then append_child c e else e) (children d))"

lemma find_findall: "find e t = (case findall e t of [] \<Rightarrow> None | c # _ \<Rightarrow> Some c)"
  by (simp add: find_def findall_def find_Some_filter)

lemma find_single [simp]: "findall e t = [c] \<Longrightarrow> find e t = Some c"
  by (simp add: find_findall)

lemma find_text_single [simp]: "findall e t = [c] \<Longrightarrow> find_text e t = Inr (elem_text c)"
  by (simp add: find_text_def)

lemma find_text_none [simp]: "findall e t = [] \<Longrightarrow> find_text e t = Inl AttributeError"
  by (simp add: find_text_def find_findall)

lemma findall_set: "c \<in> set (findall e t) \<Longrightarrow> c \<in> set (children e) \<and> tag c = t"
  by (simp add: findall_def)

lemma et_wf_child: "et_wf e \<Longrightarrow> c \<in> set (children e) \<Longrightarrow> et_wf c"
  by (cases e) auto

lemma et_wf_text: "et_wf e \<Longrightarrow> elem_text e = Some s \<Longrightarrow> s \<noteq> []"
  by (cases e) auto

lemma append_child_sel [simp]:
  "tag (append_child c e) = tag e" "elem_text (append_child c e) = elem_text e"
  "children (append_child c e) = children e @ [c]"
  by (simp_all add: append_child_def)

lemma findall_append_child:
  "findall (append_child c e) s = findall e s @ (if tag c = s then [c] else [])"
  by (simp add: findall_def)

lemma map_if_tag_filter:
  "map (\<lambda>e. if tag e = t then g e else e) (filter (\<lambda>e. tag e = s) xs)
     = (if s = t then map g (filter (\<lambda>e. tag e = s) xs) else filter (\<lambda>e. tag e = s) xs)"
  by (induction xs) auto

lemma add_to_block_sel [simp]: "tag (add_to_block t c d) = tag d"
  by (simp add: add_to_block_def)

lemma findall_add_to_block:
  "findall (add_to_block t c d) s = (if s = t then map (append_child c) (findall d s) else findall d s)"
proof -
  have "\<And>e. tag (if tag e = t then append_child c e else e) = tag e" by simp
  then have "findall (add_to_block t c d) s
             = map (\<lambda>e. if tag e = t then append_child c e else e) (filter (\<lambda>e. tag e = s) (children d))"
    by (simp add: findall_def add_to_block_def filter_map comp_def)
  then show ?thesis by (simp add: map_if_tag_filter findall_def)
qed

lemma find_add_to_block:
  "find (add_to_block t c d) s = (if s = t then map_option (append_child c) (find d s) else find d s)"
  by (simp add: find_findall findall_add_to_block split: list.splits)

lemma find_text_add_to_block: "s \<noteq> t \<Longrightarrow> find_text (add_to_block t c d) s = find_text d s"
  by (simp add: find_text_def find_add_to_block)

end
