(* ===== verification/Schema.thy ===== *)
theory Schema
  imports Xml
begin

text \<open>
  \<open>verify_graph_data\<close> of \<open>src/src/downloader/setup.py\<close> (lines 48--139): the checks
  on the parsed graph document, in the code's order, first failure wins. Each failing
  branch of the code prints its own line and returns \<open>(False, None)\<close>; here it is the
  \<open>Inl\<close> of a constructor of \<open>verify_error\<close>, one per printed line, and
  \<open>verify_message\<close> gives the line. Success returns the parsed root unchanged.
  The node loop threads the set \<open>node_ids\<close>; the edge loop reads it.
\<close>

datatype verify_error =
    XmlParseError | RootNotGraph
  | GraphIdCount | GraphIdMissing | GraphNameCount | GraphNameMissing
  | NodesCount | NoNode
  | NodeIdCount | NodeIdMissing | NodeIdNotUnique | NodeNameCount | NodeNameMissing
  | EdgesCount
  | EdgeIdCount | EdgeIdMissing | EdgeFromCount | EdgeFromNotFound
  | EdgeToCount | EdgeToNotFound | EdgeCostCount

fun verify_message :: "verify_error \<Rightarrow> string" where
  "verify_message XmlParseError = ''Invalid graph data. Check XML structure.''"
| "verify_message RootNotGraph = ''Invalid graph data. Root element is not 'graph'.''"
| "verify_message GraphIdCount = ''Invalid graph data. Expected one 'id' element.''"
| "verify_message GraphIdMissing = ''Invalid graph data. Missing required element 'id'.''"
| "verify_message GraphNameCount = ''Invalid graph data. Expected one 'name' element.''"
| "verify_message GraphNameMissing = ''Invalid graph data. Missing required element 'name'.''"
| "verify_message NodesCount = ''Invalid graph data. Expected one 'nodes' element.''"
| "verify_message NoNode = ''Invalid graph data. Expected at least one 'node' element.''"
| "verify_message NodeIdCount = ''Invalid graph data. Expected one 'id' element in 'node'.''"
| "verify_message NodeIdMissing = ''Invalid graph data. Missing required element 'id' in 'node'.''"
| "verify_message NodeIdNotUnique = ''Invalid graph data. Node ID is not unique.''"
| "verify_message NodeNameCount = ''Invalid graph data. Expected one 'name' element in 'node'.''"
| "verify_message NodeNameMissing = ''Invalid graph data. Missing required element 'name' in 'node'.''"
| "verify_message EdgesCount = ''Invalid graph data. Expected one 'edges' element.''"
| "verify_message EdgeIdCount = ''Invalid graph data. Expected one 'id' element in 'edge'.''"
| "verify_message EdgeIdMissing = ''Invalid graph data. Missing required element 'id' in 'edge'.''"
| "verify_message EdgeFromCount = ''Invalid graph data. Expected one 'from' element in 'edge'.''"
| "verify_message EdgeFromNotFound = ''Invalid graph data. 'from' node ID not found.''"
| "verify_message EdgeToCount = ''Invalid graph data. Expected one 'to' element in 'edge'.''"
| "verify_message EdgeToNotFound = ''Invalid graph data. 'to' node ID not found.''"
| "verify_message EdgeCostCount =
     ''Invalid graph data. Expected one or zero 'cost' elements in 'edge'.''"

text \<open>
  \<open>x in node_ids\<close> for the \<open>.text\<close> of an element: \<open>None\<close> is never in a set of
  strings.
\<close>

definition text_in :: "pystr \<Rightarrow> string set \<Rightarrow> bool" where
  "text_in x ids = (case x of None \<Rightarrow> False | Some s \<Rightarrow> s \<in> ids)"

text \<open>The loop over the \<open>node\<close> children of \<open>nodes\<close> (lines 89--107).\<close>

fun verify_nodes :: "string set \<Rightarrow> element list \<Rightarrow> verify_error + string set" where
  "verify_nodes ids [] = Inr ids"
| "verify_nodes ids (n # ns) =
     (case findall n ''id'' of
        [i] \<Rightarrow>
          (case elem_text i of
             None \<Rightarrow> Inl NodeIdMissing
           | Some x \<Rightarrow>
               if x \<in> ids then Inl NodeIdNotUnique
               else (case findall n ''name'' of
                       [m] \<Rightarrow> if elem_text m = None then Inl NodeNameMissing
                              else verify_nodes (insert x ids) ns
                     | _ \<Rightarrow> Inl NodeNameCount))
      | _ \<Rightarrow> Inl NodeIdCount)"

text \<open>One edge entry (lines 114--138): the set of node ids is only read.\<close>

definition verify_edge :: "string set \<Rightarrow> element \<Rightarrow> verify_error option" where
  "verify_edge ids e =
     (case findall e ''id'' of
        [i] \<Rightarrow>
          if elem_text i = None then Some EdgeIdMissing
          else (case findall e ''from'' of
                  [f] \<Rightarrow>
                    if \<not> text_in (elem_text f) ids then Some EdgeFromNotFound
                    else (case findall e ''to'' of
                            [t] \<Rightarrow>
                              if \<not> text_in (elem_text t) ids then Some EdgeToNotFound
                              else if 1 < length (findall e ''cost'') then Some EdgeCostCount
                              else None
                          | _ \<Rightarrow> Some EdgeToCount)
                | _ \<Rightarrow> Some EdgeFromCount)
      | _ \<Rightarrow> Some EdgeIdCount)"

fun verify_edges :: "string set \<Rightarrow> element list \<Rightarrow> verify_error option" where
  "verify_edges ids [] = None"
| "verify_edges ids (e # es) =
     (case verify_edge ids e of None \<Rightarrow> verify_edges ids es | Some err \<Rightarrow> Some err)"

text \<open>
  The checks after parsing (lines 64--139). Note line 112: the entries checked under
  \<open>edges\<close> are its children tagged \<open>node\<close>, as in the sample feed.
\<close>

definition verify_tree :: "element \<Rightarrow> verify_error + element" where
  "verify_tree doc =
     (if tag doc \<noteq> ''graph'' then Inl RootNotGraph
      else case findall doc ''id'' of
        [i] \<Rightarrow>
          if elem_text i = None then Inl GraphIdMissing
          else (case findall doc ''name'' of
            [nm] \<Rightarrow>
              if elem_text nm = None then Inl GraphNameMissing
              else (case findall doc ''nodes'' of
                [ns] \<Rightarrow>
                  if findall ns ''node'' = [] then Inl NoNode
                  else (case verify_nodes {} (findall ns ''node'') of
                    Inl err \<Rightarrow> Inl err
                  | Inr ids \<Rightarrow>
                      (case findall doc ''edges'' of
                        [es] \<Rightarrow>
                          (case verify_edges ids (findall es ''node'') of
                             None \<Rightarrow> Inr doc
                           | Some err \<Rightarrow> Inl err)
                      | _ \<Rightarrow> Inl EdgesCount))
              | _ \<Rightarrow> Inl NodesCount)
          | _ \<Rightarrow> Inl GraphNameCount)
      | _ \<Rightarrow> Inl GraphIdCount)"

definition verify_graph_data :: "(string \<Rightarrow> element option) \<Rightarrow> string \<Rightarrow> verify_error + element" where
  "verify_graph_data parse xml_string =
     (case parse xml_string of None \<Rightarrow> Inl XmlParseError | Some doc \<Rightarrow> verify_tree doc)"

section \<open>Sample documents\<close>

text \<open>
  Documents of \<open>src/tests/sample_data.py\<close> as parsed trees (the whitespace-only text of
  container elements, which the code never reads, is left \<open>None\<close>): the \<open>valid\<close> sample,
  and a document with two nodes of id \<open>a\<close> (spec section 8).
\<close>

definition sample_valid :: element where
  "sample_valid =
     Element ''graph'' None
       [Element ''id'' (Some ''g0'') [], Element ''name'' (Some ''Name'') [],
        Element ''nodes'' None
          [Element ''node'' None [Element ''id'' (Some ''a'') [], Element ''name'' (Some ''A name'') []]],
        Element ''edges'' None
          [Element ''node'' None
             [Element ''id'' (Some ''e1'') [], Element ''from'' (Some ''a'') [],
              Element ''to'' (Some ''a'') [], Element ''cost'' (Some ''42'') []]]]"

definition sample_dup_nodes :: element where
  "sample_dup_nodes =
     Element ''graph'' None
       [Element ''id'' (Some ''g0'') [], Element ''name'' (Some ''Name'') [],
        Element ''nodes'' None
          [Element ''node'' None [Element ''id'' (Some ''a'') [], Element ''name'' (Some ''A'') []],
           Element ''node'' None [Element ''id'' (Some ''a'') [], Element ''name'' (Some ''B'') []]],
        Element ''edges'' None []]"

section \<open>The schema as a predicate\<close>

text \<open>
  The declarative reading of the checks (spec section 4.1): a list of elements holding
  exactly one element whose text is not \<open>None\<close>; a well-formed node entry; its id;
  a well-formed edge entry for a set of node ids; a well-formed graph document.
\<close>

definition one_text :: "element list \<Rightarrow> bool" where
  "one_text es = (case es of [x] \<Rightarrow> elem_text x \<noteq> None | _ \<Rightarrow> False)"

definition node_entry_ok :: "element \<Rightarrow> bool" where
  "node_entry_ok n \<longleftrightarrow> one_text (findall n ''id'') \<and> one_text (findall n ''name'')"

definition node_key :: "element \<Rightarrow> string" where
  "node_key n = the (elem_text (hd (findall n ''id'')))"

definition one_text_in :: "string set \<Rightarrow> element list \<Rightarrow> bool" where
  "one_text_in ids es = (case es of [x] \<Rightarrow> text_in (elem_text x) ids | _ \<Rightarrow> False)"

definition edge_entry_ok :: "string set \<Rightarrow> element \<Rightarrow> bool" where
  "edge_entry_ok ids e \<longleftrightarrow>
     one_text (findall e ''id'') \<and> one_text_in ids (findall e ''from'')
     \<and> one_text_in ids (findall e ''to'') \<and> length (findall e ''cost'') \<le> 1"

definition graph_doc_ok :: "element \<Rightarrow> bool" where
  "graph_doc_ok r \<longleftrightarrow>
     tag r = ''graph'' \<and> one_text (findall r ''id'') \<and> one_text (findall r ''name'')
     \<and> (case findall r ''nodes'' of
          [ns] \<Rightarrow>
            findall ns ''node'' \<noteq> [] \<and> list_all node_entry_ok (findall ns ''node'')
            \<and> distinct (map node_key (findall ns ''node''))
            \<and> (case findall r ''edges'' of
                 [es] \<Rightarrow> list_all (edge_entry_ok (set (map node_key (findall ns ''node''))))
                           (findall es ''node'')
               | _ \<Rightarrow> False)
        | _ \<Rightarrow> False)"

text \<open>The equations that evaluate the checker and the schema on a concrete document.\<close>

lemmas schema_eval = findall_def verify_tree_def verify_edge_def text_in_def graph_doc_ok_def
  one_text_def node_entry_ok_def node_key_def edge_entry_ok_def one_text_in_def


section \<open>Lemmas\<close>

lemma one_text_iff: "one_text es \<longleftrightarrow> (\<exists>x s. es = [x] \<and> elem_text x = Some s)"
  by (auto simp: one_text_def split: list.splits)

lemma one_text_in_iff: "one_text_in ids es \<longleftrightarrow> (\<exists>x s. es = [x] \<and> elem_text x = Some s \<and> s \<in> ids)"
  by (auto simp: one_text_in_def text_in_def split: list.splits option.splits)

lemma node_key_eq: "findall n ''id'' = [i] \<Longrightarrow> elem_text i = Some x \<Longrightarrow> node_key n = x"
  by (simp add: node_key_def)

text \<open>The node loop accepts exactly the lists of well-formed entries with fresh, distinct ids.\<close>

lemma verify_nodes_Inr_iff:
  "verify_nodes ids ns = Inr ids' \<longleftrightarrow>
     list_all node_entry_ok ns \<and> distinct (map node_key ns)
     \<and> ids \<inter> node_key ` set ns = {} \<and> ids' = ids \<union> node_key ` set ns"
proof (induction ns arbitrary: ids)
  case Nil
  then show ?case by auto
next
  case (Cons n ns)
  show ?case
  proof (cases "node_entry_ok n")
    case True
    then obtain i x m where i: "findall n ''id'' = [i]" "elem_text i = Some x"
      and m: "findall n ''name'' = [m]" "elem_text m \<noteq> None"
      by (auto simp: node_entry_ok_def one_text_iff)
    then have k: "node_key n = x" by (simp add: node_key_eq)
    show ?thesis using i m k True Cons.IH[of "insert x ids"] by auto
  next
    case False
    then have "verify_nodes ids (n # ns) \<noteq> Inr ids'"
      by (auto simp: node_entry_ok_def one_text_def split: list.splits option.splits if_splits)
    with False show ?thesis by simp
  qed
qed

lemma verify_edge_None_iff: "verify_edge ids e = None \<longleftrightarrow> edge_entry_ok ids e"
  by (auto simp: verify_edge_def edge_entry_ok_def one_text_def one_text_in_def
      split: list.splits if_splits)

lemma verify_edges_None_iff: "verify_edges ids es = None \<longleftrightarrow> list_all (edge_entry_ok ids) es"
  by (induction es) (auto simp: verify_edge_None_iff [symmetric] split: option.splits)


lemma verify_edges_Some: "verify_edges ids es = Some err \<Longrightarrow> \<not> list_all (edge_entry_ok ids) es"
  using verify_edges_None_iff by force

lemma verify_nodes_ok:
  "list_all node_entry_ok ns \<Longrightarrow> distinct (map node_key ns) \<Longrightarrow> verify_nodes {} ns = Inr (node_key ` set ns)"
  by (simp add: verify_nodes_Inr_iff)

lemma verify_nodes_bind_Inr:
  "(case verify_nodes {} ns of Inl err \<Rightarrow> Inl err | Inr ids \<Rightarrow> F ids) = Inr r'
     \<longleftrightarrow> list_all node_entry_ok ns \<and> distinct (map node_key ns) \<and> F (node_key ` set ns) = Inr r'"
  by (cases "list_all node_entry_ok ns \<and> distinct (map node_key ns)")
    (auto simp: verify_nodes_ok verify_nodes_Inr_iff split: sum.splits)

text \<open>What the pipeline relies on: an accepted tree is returned unchanged and is of the schema.\<close>

lemma verify_tree_sound: "verify_tree d = Inr d' \<Longrightarrow> graph_doc_ok d \<and> d' = d"
  by (auto simp: verify_tree_def graph_doc_ok_def one_text_def verify_nodes_bind_Inr
      verify_edges_None_iff dest: verify_edges_Some split: list.splits if_splits option.splits)

lemma verify_tree_complete: "graph_doc_ok d \<Longrightarrow> verify_tree d = Inr d"
  by (auto simp: verify_tree_def graph_doc_ok_def one_text_def verify_nodes_bind_Inr
      verify_edges_None_iff dest: verify_edges_Some split: list.splits if_splits option.splits)

text \<open>C1: the incremental checker accepts exactly the documents of the declarative schema.\<close>

theorem verify_tree_accepts_iff: "verify_tree r = Inr r' \<longleftrightarrow> graph_doc_ok r \<and> r' = r"
  by (auto simp: verify_tree_def graph_doc_ok_def one_text_def verify_nodes_bind_Inr
      verify_edges_None_iff dest: verify_edges_Some split: list.splits if_splits option.splits)

end
