(* ===== verification/Extract.thy ===== *)
theory Extract
  imports Schema
begin

text \<open>
  \<open>extract_graph_data\<close> and \<open>verify_unique_ids\<close> of \<open>src/src/downloader/setup.py\<close>
  (lines 142--176). Python's \<open>float()\<close> is a builtin the code only calls: it is the
  parameter \<open>flt\<close>, returning \<open>None\<close> where \<open>float()\<close> raises \<open>ValueError\<close>. Its
  results are Python floats, which include the infinities and NaN (\<open>float('nan')\<close>).
  The extracted rows keep Python's values: ids and names are \<open>str\<close>-or-\<open>None\<close>.
\<close>

datatype pyfloat = Fin real | PosInf | NegInf | NaN

text \<open>\<open>x < 0\<close> on a Python float: false for NaN.\<close>

fun float_lt_zero :: "pyfloat \<Rightarrow> bool" where
  "float_lt_zero (Fin r) = (r < 0)"
| "float_lt_zero PosInf = False"
| "float_lt_zero NegInf = True"
| "float_lt_zero NaN = False"

type_synonym node_row = "pystr \<times> pystr"
type_synonym edge_row = "pystr \<times> pystr \<times> pystr \<times> pyfloat"
type_synonym graph_data = "pystr \<times> pystr \<times> node_row list \<times> edge_row list"

text \<open>
  The \<open>try\<close> block of lines 161--167: \<open>find('cost')\<close> is \<open>None\<close> (\<open>AttributeError\<close>),
  its text is \<open>None\<close> (\<open>TypeError\<close> in \<open>float\<close>), \<open>float\<close> raises \<open>ValueError\<close>, or the
  value is negative (the explicit \<open>raise ValueError\<close>): all give \<open>0.0\<close>.
\<close>

definition edge_cost :: "(string \<Rightarrow> pyfloat option) \<Rightarrow> element \<Rightarrow> pyfloat" where
  "edge_cost flt e =
     (case find e ''cost'' of
        None \<Rightarrow> Fin 0
      | Some c \<Rightarrow>
          (case elem_text c of
             None \<Rightarrow> Fin 0
           | Some s \<Rightarrow>
               (case flt s of
                  None \<Rightarrow> Fin 0
                | Some v \<Rightarrow> if float_lt_zero v then Fin 0 else v)))"

text \<open>The loop over the children of \<open>nodes\<close> (lines 149--153).\<close>

fun extract_nodes :: "element list \<Rightarrow> node_row list pyres" where
  "extract_nodes [] = Inr []"
| "extract_nodes (n # ns) =
     res_bind (find_text n ''id'') (\<lambda>node_id.
     res_bind (find_text n ''name'') (\<lambda>node_name.
     res_bind (extract_nodes ns) (\<lambda>rows. Inr ((node_id, node_name) # rows))))"

text \<open>The loop over the children of \<open>edges\<close> (lines 156--168).\<close>

fun extract_edges :: "(string \<Rightarrow> pyfloat option) \<Rightarrow> element list \<Rightarrow> edge_row list pyres" where
  "extract_edges flt [] = Inr []"
| "extract_edges flt (e # es) =
     res_bind (find_text e ''id'') (\<lambda>edge_id.
     res_bind (find_text e ''from'') (\<lambda>edge_from.
     res_bind (find_text e ''to'') (\<lambda>edge_to.
     res_bind (extract_edges flt es) (\<lambda>rows.
       Inr ((edge_id, edge_from, edge_to, edge_cost flt e) # rows)))))"

text \<open>
  Lines 142--170. \<open>for x in graph_data.find(t)\<close> iterates the children of the found
  element; iterating \<open>None\<close> raises \<open>TypeError\<close>.
\<close>

definition iter_find :: "element \<Rightarrow> string \<Rightarrow> element list pyres" where
  "iter_find e t = (case find e t of None \<Rightarrow> Inl TypeError | Some c \<Rightarrow> Inr (children c))"

definition extract_graph_data :: "(string \<Rightarrow> pyfloat option) \<Rightarrow> element \<Rightarrow> graph_data pyres" where
  "extract_graph_data flt g =
     res_bind (find_text g ''id'') (\<lambda>graph_id.
     res_bind (find_text g ''name'') (\<lambda>graph_name.
     res_bind (iter_find g ''nodes'') (\<lambda>node_elems.
     res_bind (extract_nodes node_elems) (\<lambda>nodes.
     res_bind (iter_find g ''edges'') (\<lambda>edge_elems.
     res_bind (extract_edges flt edge_elems) (\<lambda>edges.
       Inr (graph_id, graph_name, nodes, edges)))))))"

text \<open>Lines 173--176: \<open>len(ids) == len(set(ids))\<close> over the first components.\<close>

definition verify_unique_ids :: "('a \<times> 'b) list \<Rightarrow> bool" where
  "verify_unique_ids rows \<longleftrightarrow> length (map fst rows) = card (set (map fst rows))"

section \<open>Extraction of validated documents\<close>

text \<open>
  The row the extractor builds for a node entry; the children of an element all carry
  one tag (the feed's shape, which \<open>verify_graph_data\<close> does not check: it reads only
  the \<open>node\<close> children of \<open>nodes\<close> and of \<open>edges\<close>).
\<close>

definition node_row_of :: "element \<Rightarrow> node_row" where
  "node_row_of n = (elem_text (hd (findall n ''id'')), elem_text (hd (findall n ''name'')))"

definition all_tagged :: "string \<Rightarrow> element \<Rightarrow> bool" where
  "all_tagged t e \<longleftrightarrow> list_all (\<lambda>c. tag c = t) (children e)"

definition homogeneous :: "element \<Rightarrow> bool" where
  "homogeneous d \<longleftrightarrow> list_all (all_tagged ''node'') (findall d ''nodes'')
                     \<and> list_all (all_tagged ''node'') (findall d ''edges'')"

text \<open>The \<open>valid\<close> sample with cost text \<open>nan\<close>, which \<open>float()\<close> parses to NaN.\<close>

definition doc_nan_cost :: element where
  "doc_nan_cost =
     Element ''graph'' None
       [Element ''id'' (Some ''g0'') [], Element ''name'' (Some ''Name'') [],
        Element ''nodes'' None
          [Element ''node'' None [Element ''id'' (Some ''a'') [], Element ''name'' (Some ''A name'') []]],
        Element ''edges'' None
          [Element ''node'' None
             [Element ''id'' (Some ''e1'') [], Element ''from'' (Some ''a'') [],
              Element ''to'' (Some ''a'') [], Element ''cost'' (Some ''nan'') []]]]"

section \<open>Lemmas\<close>

lemma verify_unique_ids_distinct [simp]: "verify_unique_ids rows \<longleftrightarrow> distinct (map fst rows)"
  unfolding verify_unique_ids_def by (rule length_eq_card_set_iff)

text \<open>The graph id the extractor returns is the text of the document's \<open>id\<close> child.\<close>

lemma extract_graph_data_id:
  "extract_graph_data flt d = Inr gd \<Longrightarrow> find_text d ''id'' = Inr (fst gd)"
  by (auto simp: extract_graph_data_def res_bind_Inr_iff)

lemma graph_doc_ok_id: "graph_doc_ok d \<Longrightarrow> \<exists>x. find_text d ''id'' = Inr (Some x)"
  by (auto simp: graph_doc_ok_def one_text_iff split: list.splits)


lemma all_tagged_findall: "all_tagged t e \<Longrightarrow> findall e t = children e"
  by (simp add: all_tagged_def findall_def list_all_iff)

lemma edge_cost_not_negative: "\<not> float_lt_zero (edge_cost flt e)"
  by (simp add: edge_cost_def split: option.splits)

text \<open>The values \<open>edge_cost\<close> can take: a non-negative number, \<open>inf\<close>, or NaN.\<close>

lemma edge_cost_range: "(\<exists>r. edge_cost flt e = Fin r \<and> 0 \<le> r) \<or> edge_cost flt e = PosInf \<or> edge_cost flt e = NaN"
  using edge_cost_not_negative[of flt e] by (cases "edge_cost flt e") auto

lemma extract_edges_costs:
  "extract_edges flt es = Inr rows \<Longrightarrow> \<forall>r \<in> set rows. \<exists>e \<in> set es. snd (snd (snd r)) = edge_cost flt e"
  by (induction es arbitrary: rows) (fastforce simp: res_bind_Inr_iff)+

lemma extract_graph_data_edges:
  "extract_graph_data flt d = Inr (gid, nm, ns, es) \<Longrightarrow> \<exists>xs. extract_edges flt xs = Inr es"
  by (auto simp: extract_graph_data_def res_bind_Inr_iff)

lemma extract_nodes_ok:
  "list_all node_entry_ok ns \<Longrightarrow> extract_nodes ns = Inr (map node_row_of ns)"
  by (induction ns) (auto simp: node_entry_ok_def one_text_def node_row_of_def split: list.splits)

lemma map_fst_node_rows: "list_all node_entry_ok ns \<Longrightarrow> map fst (map node_row_of ns) = map (Some \<circ> node_key) ns"
  by (induction ns) (auto simp: node_entry_ok_def one_text_iff node_row_of_def node_key_def)

lemma extract_edges_ok:
  assumes "list_all (edge_entry_ok ids) es"
  shows "\<exists>rows. extract_edges flt es = Inr rows \<and> length rows = length es
           \<and> (\<forall>(i, f, t, c) \<in> set rows. i \<noteq> None \<and> f \<in> Some ` ids \<and> t \<in> Some ` ids)"
  using assms
proof (induction es)
  case Nil
  then show ?case by simp
next
  case (Cons e es)
  then obtain rows where rows: "extract_edges flt es = Inr rows" "length rows = length es"
    "\<forall>(i, f, t, c) \<in> set rows. i \<noteq> None \<and> f \<in> Some ` ids \<and> t \<in> Some ` ids"
    by auto
  from Cons.prems obtain i x f y t z where
    "findall e ''id'' = [i]" "elem_text i = Some x"
    "findall e ''from'' = [f]" "elem_text f = Some y" "y \<in> ids"
    "findall e ''to'' = [t]" "elem_text t = Some z" "z \<in> ids"
    by (auto simp: edge_entry_ok_def one_text_iff one_text_in_iff)
  with rows show ?case by auto
qed


text \<open>The extractor raises only \<open>AttributeError\<close> (a missing child) or \<open>TypeError\<close>.\<close>

lemma extract_nodes_exc: "extract_nodes ns = Inl e \<Longrightarrow> e = AttributeError"
  by (induction ns) (auto simp: res_bind_def find_text_def split: sum.splits option.splits)

lemma extract_edges_exc: "extract_edges fl es = Inl e \<Longrightarrow> e = AttributeError"
  by (induction es) (auto simp: res_bind_def find_text_def split: sum.splits option.splits)

lemma extract_graph_data_exc:
  "extract_graph_data fl d = Inl e \<Longrightarrow> e = AttributeError \<or> e = TypeError"
  by (auto simp: extract_graph_data_def res_bind_def find_text_def iter_find_def
      dest: extract_nodes_exc extract_edges_exc split: sum.splits option.splits)

text \<open>
  C2: on a document that passes validation and whose \<open>nodes\<close> and \<open>edges\<close> hold only
  \<open>node\<close> children, extraction does not raise, the graph id and name are strings, the
  node ids are unique (the uniqueness check agrees with the validator), and every edge
  has an id and joins two extracted node ids.
\<close>

theorem extract_validated:
  assumes ok: "graph_doc_ok d" and hom: "homogeneous d"
  shows "\<exists>gid gname nodes edges.
           extract_graph_data flt d = Inr (gid, gname, nodes, edges)
           \<and> gid \<noteq> None \<and> gname \<noteq> None \<and> verify_unique_ids nodes
           \<and> (\<forall>(i, f, t, c) \<in> set edges. i \<noteq> None \<and> f \<in> fst ` set nodes \<and> t \<in> fst ` set nodes)"
proof -
  from ok obtain i x m y ns es where
    i: "findall d ''id'' = [i]" "elem_text i = Some x" and
    m: "findall d ''name'' = [m]" "elem_text m = Some y" and
    ns: "findall d ''nodes'' = [ns]" and es: "findall d ''edges'' = [es]" and
    nodes_ok: "list_all node_entry_ok (findall ns ''node'')"
      "distinct (map node_key (findall ns ''node''))" and
    edges_ok: "list_all (edge_entry_ok (node_key ` set (findall ns ''node''))) (findall es ''node'')"
    by (auto simp: graph_doc_ok_def one_text_iff split: list.splits)
  from hom ns es have ch: "children ns = findall ns ''node''" "children es = findall es ''node''"
    by (simp_all add: homogeneous_def all_tagged_findall)
  let ?nodes = "map node_row_of (findall ns ''node'')"
  from edges_ok obtain edges where
    edges: "extract_edges flt (findall es ''node'') = Inr edges" and
    ends: "\<forall>(i, f, t, c) \<in> set edges. i \<noteq> None \<and> f \<in> Some ` node_key ` set (findall ns ''node'')
                                   \<and> t \<in> Some ` node_key ` set (findall ns ''node'')"
    using extract_edges_ok by blast
  have keys: "fst ` set ?nodes = Some ` node_key ` set (findall ns ''node'')"
    using map_fst_node_rows[OF nodes_ok(1)] by (metis image_comp list.set_map)
  have "extract_graph_data flt d = Inr (Some x, Some y, ?nodes, edges)"
    using i m ns es ch edges extract_nodes_ok[OF nodes_ok(1)]
    by (simp add: extract_graph_data_def iter_find_def)
  moreover have "verify_unique_ids ?nodes"
  proof -
    have "distinct (map (Some \<circ> node_key) (findall ns ''node''))"
      using nodes_ok(2) by (simp add: distinct_map inj_on_def)
    then show ?thesis unfolding verify_unique_ids_distinct map_fst_node_rows[OF nodes_ok(1)] .
  qed
  ultimately show ?thesis using ends keys by auto
qed


text \<open>Witness: the \<open>valid\<close> sample of the tests, with \<open>float('42') = 42.0\<close>.\<close>

theorem extract_validated_witness:
  "graph_doc_ok sample_valid \<and> homogeneous sample_valid \<and>
   extract_graph_data (\<lambda>s. if s = ''42'' then Some (Fin 42) else None) sample_valid =
     Inr (Some ''g0'', Some ''Name'', [(Some ''a'', Some ''A name'')],
          [(Some ''e1'', Some ''a'', Some ''a'', Fin 42)])"
proof -
  have ok: "graph_doc_ok sample_valid" and hom: "homogeneous sample_valid"
    by (simp_all add: sample_valid_def schema_eval homogeneous_def all_tagged_def)
  have "extract_graph_data (\<lambda>s. if s = ''42'' then Some (Fin 42) else None) sample_valid =
     Inr (Some ''g0'', Some ''Name'', [(Some ''a'', Some ''A name'')],
          [(Some ''e1'', Some ''a'', Some ''a'', Fin 42)])"
    using extract_validated[OF ok hom, of "\<lambda>s. if s = ''42'' then Some (Fin 42) else None"]
    by (simp add: sample_valid_def extract_graph_data_def iter_find_def find_text_def find_def
        edge_cost_def)
  with ok hom show ?thesis by simp
qed

text \<open>Extraction of a document with one more child in a block.\<close>

lemma extract_edges_append:
  "extract_edges flt (xs @ ys) = res_bind (extract_edges flt xs) (\<lambda>a. res_bind (extract_edges flt ys) (\<lambda>b. Inr (a @ b)))"
  by (induction xs) (simp_all add: res_bind_assoc, simp add: res_bind_def split: sum.splits)

lemma iter_find_add_to_block:
  "iter_find (add_to_block t c d) t = res_bind (iter_find d t) (\<lambda>cs. Inr (cs @ [c]))"
  by (simp add: iter_find_def find_add_to_block split: option.splits)

lemma iter_find_add_to_block_other: "s \<noteq> t \<Longrightarrow> iter_find (add_to_block t c d) s = iter_find d s"
  by (simp add: iter_find_def find_add_to_block)

lemma extract_graph_data_Inr:
  "extract_graph_data flt d = Inr (gid, nm, ns, es) \<longleftrightarrow>
     (\<exists>nes ees. find_text d ''id'' = Inr gid \<and> find_text d ''name'' = Inr nm
        \<and> iter_find d ''nodes'' = Inr nes \<and> extract_nodes nes = Inr ns
        \<and> iter_find d ''edges'' = Inr ees \<and> extract_edges flt ees = Inr es)"
  by (auto simp: extract_graph_data_def res_bind_Inr_iff)

lemma graph_doc_ok_add_to_block:
  assumes "tag c \<noteq> ''node''" and "t = ''nodes'' \<or> t = ''edges''"
  shows "graph_doc_ok (add_to_block t c d) \<longleftrightarrow> graph_doc_ok d"
  using assms(2)
  by (elim disjE) (auto simp: assms(1) graph_doc_ok_def findall_add_to_block findall_append_child
      split: list.splits)

lemma extract_nodes_append:
  "extract_nodes (xs @ ys) = res_bind (extract_nodes xs) (\<lambda>a. res_bind (extract_nodes ys) (\<lambda>b. Inr (a @ b)))"
  by (induction xs) (simp_all add: res_bind_assoc, simp add: res_bind_def split: sum.splits)

text \<open>
  C3: the validator reads only the children tagged \<open>node\<close> of \<open>nodes\<close> and of
  \<open>edges\<close> (lines 89 and 112), the extractor reads every child (lines 149 and 156). For
  every document that passes validation and extracts, adding a child with any other tag
  to \<open>nodes\<close> or to \<open>edges\<close> keeps it valid, and the extractor reads the added child as
  one more node or edge row: its id may repeat a node id, its endpoints need not be
  node ids, and a child without an \<open>id\<close> makes the extraction raise.
\<close>

theorem validator_ignores_other_children:
  assumes c: "tag c \<noteq> ''node''" and ok: "verify_tree d = Inr d"
    and ex: "extract_graph_data flt d = Inr (gid, nm, ns, es)"
  shows "verify_tree (add_to_block ''nodes'' c d) = Inr (add_to_block ''nodes'' c d)
     \<and> verify_tree (add_to_block ''edges'' c d) = Inr (add_to_block ''edges'' c d)
     \<and> extract_graph_data flt (add_to_block ''nodes'' c d) = res_bind (extract_nodes [c]) (\<lambda>r. Inr (gid, nm, ns @ r, es))
     \<and> extract_graph_data flt (add_to_block ''edges'' c d) = res_bind (extract_edges flt [c]) (\<lambda>r. Inr (gid, nm, ns, es @ r))"
proof -
  have g: "graph_doc_ok d" using verify_tree_sound[OF ok] by simp
  obtain nes ees where e: "find_text d ''id'' = Inr gid" "find_text d ''name'' = Inr nm"
    "iter_find d ''nodes'' = Inr nes" "extract_nodes nes = Inr ns"
    "iter_find d ''edges'' = Inr ees" "extract_edges flt ees = Inr es"
    using ex unfolding extract_graph_data_Inr by blast
  show ?thesis
    using e c graph_doc_ok_add_to_block[OF c] g
    by (simp add: verify_tree_complete extract_graph_data_def find_text_add_to_block
        iter_find_add_to_block iter_find_add_to_block_other extract_nodes_append extract_edges_append
        res_bind_assoc)
qed

text \<open>
  C18: every cost the extractor returns is a non-negative number, positive infinity or
  NaN; a negative value (\<open>-inf\<close> included) never reaches the store.
\<close>

theorem extract_costs_bounded:
  assumes "extract_graph_data flt d = Inr (gid, nm, ns, es)"
  shows "\<forall>(i, f, t, c) \<in> set es. (\<exists>r. c = Fin r \<and> 0 \<le> r) \<or> c = PosInf \<or> c = NaN"
  using extract_graph_data_edges[OF assms] extract_edges_costs edge_cost_range by fastforce

theorem extract_costs_bounded_witness:
  "extract_graph_data (\<lambda>s. if s = ''nan'' then Some NaN else None) doc_nan_cost =
     Inr (Some ''g0'', Some ''Name'', [(Some ''a'', Some ''A name'')], [(Some ''e1'', Some ''a'', Some ''a'', NaN)])
   \<and> verify_tree doc_nan_cost = Inr doc_nan_cost"
proof -
  have e: "extract_graph_data (\<lambda>s. if s = ''nan'' then Some NaN else None) doc_nan_cost =
     Inr (Some ''g0'', Some ''Name'', [(Some ''a'', Some ''A name'')], [(Some ''e1'', Some ''a'', Some ''a'', NaN)])"
    by (simp add: doc_nan_cost_def extract_graph_data_def iter_find_def find_text_def find_def
        edge_cost_def)
  have "verify_tree doc_nan_cost = Inr doc_nan_cost" by (simp add: doc_nan_cost_def schema_eval)
  then show ?thesis using extract_costs_bounded[OF e] e by simp
qed


theorem validator_ignores_other_children_witness:
  "verify_tree sample_valid = Inr sample_valid
   \<and> extract_graph_data (\<lambda>s. if s = ''42'' then Some (Fin 42) else None) sample_valid =
       Inr (Some ''g0'', Some ''Name'', [(Some ''a'', Some ''A name'')], [(Some ''e1'', Some ''a'', Some ''a'', Fin 42)])
   \<and> verify_tree (add_to_block ''nodes'' (Element ''comment'' (Some ''x'') []) sample_valid)
       = Inr (add_to_block ''nodes'' (Element ''comment'' (Some ''x'') []) sample_valid)
   \<and> extract_graph_data (\<lambda>s. if s = ''42'' then Some (Fin 42) else None)
       (add_to_block ''nodes'' (Element ''comment'' (Some ''x'') []) sample_valid) = Inl AttributeError"
proof -
  have ok: "verify_tree sample_valid = Inr sample_valid" by (simp add: sample_valid_def schema_eval)
  have ex: "extract_graph_data (\<lambda>s. if s = ''42'' then Some (Fin 42) else None) sample_valid =
       Inr (Some ''g0'', Some ''Name'', [(Some ''a'', Some ''A name'')], [(Some ''e1'', Some ''a'', Some ''a'', Fin 42)])"
    by (simp add: sample_valid_def extract_graph_data_def iter_find_def find_text_def find_def edge_cost_def)
  have c: "tag (Element ''comment'' (Some ''x'') []) \<noteq> ''node''" by simp
  show ?thesis using validator_ignores_other_children[OF c ok ex] ok ex
    by (simp add: find_text_def find_def)
qed

end
