(* ===== verification/Store.thy ===== *)
theory Store
  imports Extract
begin

text \<open>
  The PostgreSQL store the ingest writes and the query service reads: the tables
  \<open>public.graphs\<close>, \<open>public.nodes\<close> and \<open>public.edges\<close> of \<open>src/src/downloader/setup.py\<close>
  (\<open>graph_id_exists\<close>, lines 179--185, and \<open>insert_graph_data\<close>, lines 188--197), each a
  list of rows in insertion order. The integrity the ingest keeps (\<open>store_inv\<close>) and an
  abstract view of the store as a map from graph id to the graph's name, nodes and
  edges (\<open>store_abs\<close>); \<open>store_insert\<close> refines the update of that map at a fresh id.
\<close>

record store =
  graphs :: "(pystr \<times> pystr) list"
  node_rows :: "(pystr \<times> pystr \<times> pystr) list"
  edge_rows :: "(pystr \<times> pystr \<times> pystr \<times> pyfloat \<times> pystr) list"

text \<open>\<open>SELECT ... WHERE graph_id = %s\<close>: SQL's \<open>= NULL\<close> matches no row.\<close>

definition graph_id_exists :: "pystr \<Rightarrow> store \<Rightarrow> bool" where
  "graph_id_exists graph_id st \<longleftrightarrow> graph_id \<noteq> None \<and> list_ex (\<lambda>r. fst r = graph_id) (graphs st)"

text \<open>The rows the three \<open>INSERT\<close> statements add, committed as one unit.\<close>

definition store_insert :: "graph_data \<Rightarrow> store \<Rightarrow> store" where
  "store_insert gd st =
     (case gd of (graph_id, graph_name, nodes, edges) \<Rightarrow>
        st\<lparr>graphs := graphs st @ [(graph_id, graph_name)],
           node_rows := node_rows st @ map (\<lambda>(i, n). (i, n, graph_id)) nodes,
           edge_rows := edge_rows st @ map (\<lambda>(i, f, t, c). (i, f, t, c, graph_id)) edges\<rparr>)"

definition empty_store :: store where
  "empty_store = \<lparr>graphs = [], node_rows = [], edge_rows = []\<rparr>"

text \<open>
  Integrity of the store: graph ids are non-null and unique, and every node and edge row
  belongs to a stored graph.
\<close>

definition store_inv :: "store \<Rightarrow> bool" where
  "store_inv st \<longleftrightarrow>
     distinct (map fst (graphs st)) \<and> None \<notin> fst ` set (graphs st)
     \<and> (\<forall>r \<in> set (node_rows st). snd (snd r) \<in> fst ` set (graphs st))
     \<and> (\<forall>r \<in> set (edge_rows st). snd (snd (snd (snd r))) \<in> fst ` set (graphs st))"

section \<open>Abstract view\<close>

text \<open>
  A stored graph as the query service sees it: its name, its nodes and its edges, in the
  shape \<open>extract_graph_data\<close> produces them (the graph id column dropped).
\<close>

type_synonym graph_view = "pystr \<times> node_row list \<times> edge_row list"

definition nodes_of :: "pystr \<Rightarrow> store \<Rightarrow> node_row list" where
  "nodes_of g st = map (\<lambda>(i, n, _). (i, n)) (filter (\<lambda>r. snd (snd r) = g) (node_rows st))"

definition edges_of :: "pystr \<Rightarrow> store \<Rightarrow> edge_row list" where
  "edges_of g st =
     map (\<lambda>(i, f, t, c, _). (i, f, t, c)) (filter (\<lambda>r. snd (snd (snd (snd r))) = g) (edge_rows st))"

definition store_abs :: "store \<Rightarrow> pystr \<rightharpoonup> graph_view" where
  "store_abs st g = map_option (\<lambda>name. (name, nodes_of g st, edges_of g st)) (map_of (graphs st) g)"

section \<open>Lemmas\<close>

lemma graph_id_exists_iff: "graph_id_exists g st \<longleftrightarrow> g \<noteq> None \<and> g \<in> fst ` set (graphs st)"
  by (auto simp: graph_id_exists_def list_ex_iff)

lemma dom_store_abs: "dom (store_abs st) = fst ` set (graphs st)"
  by (auto simp: store_abs_def dom_map_of_conv_image_fst[symmetric])

lemma graph_id_exists_abs: "store_inv st \<Longrightarrow> graph_id_exists g st \<longleftrightarrow> g \<in> dom (store_abs st)"
  by (cases g) (auto simp: graph_id_exists_iff dom_store_abs store_inv_def)

lemma store_inv_insert:
  "store_inv st \<Longrightarrow> fst gd \<noteq> None \<Longrightarrow> \<not> graph_id_exists (fst gd) st \<Longrightarrow> store_inv (store_insert gd st)"
  by (cases gd) (auto simp: store_inv_def store_insert_def graph_id_exists_iff)

lemma store_inv_empty: "store_inv empty_store"
  by (simp add: store_inv_def empty_store_def)

lemma store_abs_empty: "store_abs empty_store = Map.empty"
  by (simp add: store_abs_def empty_store_def fun_eq_iff)

text \<open>Under the invariant no row belongs to an id that is not a stored graph.\<close>

lemma rows_of_fresh:
  assumes "store_inv st" and "g \<notin> fst ` set (graphs st)"
  shows "nodes_of g st = [] \<and> edges_of g st = []"
  using assms by (force simp: store_inv_def nodes_of_def edges_of_def filter_empty_conv)

lemma graphs_store_insert [simp]: "graphs (store_insert (gid, nm, ns, es) st) = graphs st @ [(gid, nm)]"
  by (simp add: store_insert_def)

lemma graph_id_exists_insert:
  "graph_id_exists h (store_insert gd st) \<longleftrightarrow> graph_id_exists h st \<or> (h \<noteq> None \<and> h = fst gd)"
  by (cases gd) (auto simp: graph_id_exists_iff)

lemma rows_of_insert:
  "nodes_of g (store_insert (gid, nm, ns, es) st) = nodes_of g st @ (if g = gid then ns else [])"
  "edges_of g (store_insert (gid, nm, ns, es) st) = edges_of g st @ (if g = gid then es else [])"
  by (induction ns) (auto simp: nodes_of_def edges_of_def store_insert_def comp_def
      case_prod_beta filter_map map_idI)

text \<open>
  Refinement at the store level: inserting a graph at an id the store does not hold is
  the update of the abstract map at that id.
\<close>

lemma store_abs_insert:
  assumes inv: "store_inv st" and fresh: "fst gd \<notin> dom (store_abs st)"
  shows "store_abs (store_insert gd st) = (store_abs st)(fst gd \<mapsto> snd gd)"
proof -
  obtain gid nm ns es where gd: "gd = (gid, nm, ns, es)" by (cases gd) auto
  have f: "gid \<notin> fst ` set (graphs st)" using fresh gd by (simp add: dom_store_abs)
  then have "map_of (graphs st) gid = None" by (simp add: map_of_eq_None_iff)
  then show ?thesis
    using rows_of_fresh[OF inv f] unfolding gd
    by (auto simp: fun_eq_iff store_abs_def rows_of_insert map_add_def
        split: option.splits)
qed

end
