(* ===== verification/Environment.thy ===== *)
theory Environment
  imports Prelude
begin

text \<open>
  What the programs read from their surroundings: the process environment
  (\<open>os.getenv\<close>, a map from variable names to values), the configuration of
  \<open>src/config.py\<close>, the HTTP response of the graph download (\<open>download_graph\<close> of
  \<open>src/src/downloader/setup.py\<close>, lines 35--45) and the connection parameters of
  \<open>get_db_connection\<close> (\<open>src/src/db_connection/postgres.py\<close>). The network request and
  \<open>psycopg2.connect\<close> themselves are I/O: the response is an input, and a connection is
  described by the parameters it is opened with.
\<close>

type_synonym os_env = "string \<Rightarrow> string option"

text \<open>\<open>src/config.py\<close> line 4: \<open>os.getenv(name, default)\<close>.\<close>

definition getenv_default :: "os_env \<Rightarrow> string \<Rightarrow> string \<Rightarrow> string" where
  "getenv_default env name dflt = (case env name of None \<Rightarrow> dflt | Some v \<Rightarrow> v)"

definition graph_data_endpoint :: "os_env \<Rightarrow> string" where
  "graph_data_endpoint env = getenv_default env ''GRAPH_DATA_ENDPOINT'' ''http://default.endpoint''"

record http_response =
  status_code :: int
  resp_text :: string

text \<open>
  \<open>download_graph\<close>: \<open>requests.get\<close> on the configured endpoint (the function
  \<open>http_get\<close> from URL to response); the body when the status is 200, else \<open>None\<close>.
\<close>

definition download_graph :: "os_env \<Rightarrow> (string \<Rightarrow> http_response) \<Rightarrow> string option" where
  "download_graph env http_get =
     (let response = http_get (graph_data_endpoint env) in
      if status_code response \<noteq> 200 then None else Some (resp_text response))"

record db_params =
  db_host :: "string option"
  db_port :: "string option"
  db_name :: "string option"
  db_user :: "string option"
  db_password :: "string option"

text \<open>\<open>get_db_connection\<close>: the five variables, each \<open>None\<close> when unset.\<close>

definition get_db_connection :: "os_env \<Rightarrow> db_params" where
  "get_db_connection env =
     \<lparr>db_host = env ''POSTGRES_HOST'', db_port = env ''POSTGRES_PORT'', db_name = env ''POSTGRES_DB'',
      db_user = env ''POSTGRES_USER'', db_password = env ''POSTGRES_PASSWORD''\<rparr>"

section \<open>Lemmas\<close>

lemma download_graph_Some_iff:
  "download_graph env http_get = Some body \<longleftrightarrow>
     status_code (http_get (graph_data_endpoint env)) = 200 \<and> resp_text (http_get (graph_data_endpoint env)) = body"
  by (auto simp: download_graph_def Let_def)

lemma graph_data_endpoint_default:
  "env ''GRAPH_DATA_ENDPOINT'' = None \<Longrightarrow> graph_data_endpoint env = ''http://default.endpoint''"
  by (simp add: graph_data_endpoint_def getenv_default_def)

end
