(* ===== verification/Ingest.thy ===== *)
theory Ingest
  imports Store Environment
begin

text \<open>
  The ingest run \<open>set_up_graph_data\<close> of \<open>src/src/downloader/setup.py\<close> (lines 10--32)
  with the helpers it calls: \<open>set_graph_id\<close> (lines 200--203), \<open>graph_id_exists\<close>
  (lines 179--185) and \<open>insert_graph_data\<close> (lines 188--197), each of the last two
  opening its own connection through \<open>get_db_connection\<close>. The world the run acts on
  is the content of \<open>graph_id.txt\<close>, the store (theory \<open>Store\<close>), and the lines printed
  to stdout. The environment of one run is the process environment, the HTTP response
  for each URL (\<open>download_graph\<close>, theory \<open>Environment\<close>), the XML parser, Python's
  \<open>float\<close>, whether the server accepts the connection parameters, and whether the store
  commits the insert. An uncaught exception ends the process: the run's outcome is
  \<open>Crashed\<close>, with the effects made before it kept.
\<close>

record world =
  graph_file :: "string option"
  db :: store
  stdout :: "string list"

record ingest_env =
  environ :: os_env
  http_get :: "string \<Rightarrow> http_response"
  parser :: "string \<Rightarrow> element option"
  flt :: "string \<Rightarrow> pyfloat option"
  db_connects :: "db_params \<Rightarrow> bool"
  insert_commits :: bool

definition emit :: "string \<Rightarrow> world \<Rightarrow> world" where
  "emit line w = w\<lparr>stdout := stdout w @ [line]\<rparr>"

text \<open>
  \<open>open("graph_id.txt", "w")\<close> truncates the file before \<open>f.write(graph_id)\<close>, which raises
  \<open>TypeError\<close> when the id is \<open>None\<close>.
\<close>

definition set_graph_id :: "pystr \<Rightarrow> world \<Rightarrow> unit pyres \<times> world" where
  "set_graph_id graph_id w =
     (case graph_id of
        None \<Rightarrow> (Inl TypeError, w\<lparr>graph_file := Some []\<rparr>)
      | Some s \<Rightarrow> (Inr (), w\<lparr>graph_file := Some s\<rparr>))"

text \<open>
  \<open>psycopg2.connect\<close> with the parameters of \<open>get_db_connection\<close>: whether the server
  accepts them is an input of the run; a refusal raises \<open>psycopg2.OperationalError\<close>.
\<close>

definition db_reachable :: "ingest_env \<Rightarrow> bool" where
  "db_reachable env \<longleftrightarrow> db_connects env (get_db_connection (environ env))"

definition msg_connect_failed :: string where "msg_connect_failed = ''could not connect to server''"

definition open_connection :: "ingest_env \<Rightarrow> unit pyres" where
  "open_connection env = (if db_reachable env then Inr () else Inl (DbError msg_connect_failed))"

text \<open>\<open>graph_id_exists\<close> (lines 179--185): a connection, then the \<open>SELECT\<close>.\<close>

definition query_graph_id_exists :: "ingest_env \<Rightarrow> pystr \<Rightarrow> store \<Rightarrow> bool pyres" where
  "query_graph_id_exists env graph_id st = res_bind (open_connection env) (\<lambda>_. Inr (graph_id_exists graph_id st))"

text \<open>
  \<open>insert_graph_data\<close> (lines 188--197): a connection, then the three \<open>INSERT\<close>s and the
  commit; a failing statement rolls the transaction back (the table constraints are not
  in the repository, so whether the store commits is an input of the run).
\<close>

definition insert_graph_data :: "ingest_env \<Rightarrow> graph_data \<Rightarrow> store \<Rightarrow> store pyres" where
  "insert_graph_data env gd st =
     res_bind (open_connection env)
       (\<lambda>_. if insert_commits env then Inr (store_insert gd st) else Inl (DbError ''insert failed''))"

definition msg_download :: string where "msg_download = ''Problem downloading graph data.''"
definition msg_validate :: string where "msg_validate = ''Problem validating graph data.''"
definition msg_node_ids :: string where "msg_node_ids = ''Problem validating unique node IDs.''"
definition msg_edge_ids :: string where "msg_edge_ids = ''Problem validating unique edge IDs.''"
definition msg_exists :: string where "msg_exists = ''Graph ID already exists.''"
definition msg_inserted :: string where "msg_inserted = ''Graph data successfully inserted.''"

text \<open>The steps after the uniqueness checks (lines 26--32).\<close>

definition register_and_insert :: "ingest_env \<Rightarrow> graph_data \<Rightarrow> world \<Rightarrow> outcome \<times> world" where
  "register_and_insert env gd w =
     (case set_graph_id (fst gd) w of
        (Inl exc, w') \<Rightarrow> (Crashed exc, w')
      | (Inr _, w') \<Rightarrow>
          (case query_graph_id_exists env (fst gd) (db w') of
             Inl exc \<Rightarrow> (Crashed exc, w')
           | Inr True \<Rightarrow> (Finished, emit msg_exists w')
           | Inr False \<Rightarrow>
               (case insert_graph_data env gd (db w') of
                  Inl exc \<Rightarrow> (Crashed exc, w')
                | Inr st \<Rightarrow> (Finished, emit msg_inserted (w'\<lparr>db := st\<rparr>)))))"

definition set_up_graph_data :: "ingest_env \<Rightarrow> world \<Rightarrow> outcome \<times> world" where
  "set_up_graph_data env w =
     (case download_graph (environ env) (http_get env) of
        None \<Rightarrow> (Finished, emit msg_download w)
      | Some xml_string \<Rightarrow>
          (case verify_graph_data (parser env) xml_string of
             Inl err \<Rightarrow> (Finished, emit msg_validate (emit (verify_message err) w))
           | Inr xml_data \<Rightarrow>
               (case extract_graph_data (flt env) xml_data of
                  Inl exc \<Rightarrow> (Crashed exc, w)
                | Inr gd \<Rightarrow>
                    if \<not> verify_unique_ids (fst (snd (snd gd))) then (Finished, emit msg_node_ids w)
                    else if \<not> verify_unique_ids (snd (snd (snd gd))) then (Finished, emit msg_edge_ids w)
                    else register_and_insert env gd w)))"

definition init_world :: world where
  "init_world = \<lparr>graph_file = None, db = empty_store, stdout = []\<rparr>"

text \<open>
  A run on the \<open>valid\<close> sample of the tests: the download succeeds, the parser returns
  the sample tree, \<open>float('42') = 42.0\<close>; the store commits, or fails the insert.
\<close>

definition sample_env :: ingest_env where
  "sample_env =
     \<lparr>environ = (\<lambda>_. None), http_get = (\<lambda>url. \<lparr>status_code = 200, resp_text = ''<graph>...</graph>''\<rparr>),
      parser = (\<lambda>_. Some sample_valid),
      flt = (\<lambda>s. if s = ''42'' then Some (Fin 42) else None), db_connects = (\<lambda>_. True),
      insert_commits = True\<rparr>"

definition sample_env_db_fails :: ingest_env where
  "sample_env_db_fails = sample_env\<lparr>insert_commits := False\<rparr>"

definition sample_env_db_down :: ingest_env where
  "sample_env_db_down = sample_env\<lparr>db_connects := (\<lambda>_. False)\<rparr>"

definition sample_data :: graph_data where
  "sample_data =
     (Some ''g0'', Some ''Name'', [(Some ''a'', Some ''A name'')], [(Some ''e1'', Some ''a'', Some ''a'', Fin 42)])"


section \<open>Effects of one run\<close>

text \<open>The equations that evaluate a run on a concrete environment.\<close>

lemmas run_eval = set_up_graph_data_def download_graph_def graph_data_endpoint_def
  getenv_default_def verify_graph_data_def register_and_insert_def set_graph_id_def
  query_graph_id_exists_def insert_graph_data_def open_connection_def db_reachable_def
  graph_id_exists_def emit_def extract_graph_data_def iter_find_def find_text_def find_def
  edge_cost_def

lemma register_and_insert_effect:
  assumes run: "register_and_insert env gd w = (res, w')" and gid: "fst gd = Some g"
  shows "graph_file w' = Some g \<and>
    (if \<not> db_reachable env
     then res = Crashed (DbError msg_connect_failed) \<and> db w' = db w \<and> stdout w' = stdout w
     else if graph_id_exists (Some g) (db w)
     then res = Finished \<and> db w' = db w \<and> stdout w' = stdout w @ [msg_exists]
     else if insert_commits env
     then res = Finished \<and> db w' = store_insert gd (db w) \<and> stdout w' = stdout w @ [msg_inserted]
     else res = Crashed (DbError ''insert failed'') \<and> db w' = db w \<and> stdout w' = stdout w)"
  using run gid
  by (auto simp: register_and_insert_def set_graph_id_def query_graph_id_exists_def
      insert_graph_data_def open_connection_def emit_def split: if_splits)

text \<open>
  A run either stops before it registers the graph, having changed at most stdout, or it
  reaches lines 26--32 with a validated document and its extracted data.
\<close>

lemma set_up_graph_data_cases:
  assumes run: "set_up_graph_data env w = (res, w')"
  shows "(graph_file w' = graph_file w \<and> db w' = db w
          \<and> res \<in> {Finished, Crashed AttributeError, Crashed TypeError}
          \<and> stdout w' \<noteq> stdout w @ [msg_exists] \<and> stdout w' \<noteq> stdout w @ [msg_inserted])
       \<or> (\<exists>xml doc gd. download_graph (environ env) (http_get env) = Some xml
            \<and> verify_graph_data (parser env) xml = Inr doc
            \<and> extract_graph_data (flt env) doc = Inr gd
            \<and> register_and_insert env gd w = (res, w'))"
  using run
  by (auto simp: set_up_graph_data_def emit_def msg_download_def msg_validate_def msg_node_ids_def
      msg_edge_ids_def msg_exists_def msg_inserted_def
      dest: extract_graph_data_exc split: option.splits sum.splits if_splits)

lemma verify_graph_data_Inr: "verify_graph_data p s = Inr doc \<Longrightarrow> graph_doc_ok doc"
  by (auto simp: verify_graph_data_def dest: verify_tree_sound split: option.splits)

lemma registered_id:
  assumes "verify_graph_data p s = Inr doc" and "extract_graph_data fl doc = Inr gd"
  shows "\<exists>g. fst gd = Some g"
  using graph_doc_ok_id[OF verify_graph_data_Inr[OF assms(1)]] extract_graph_data_id[OF assms(2)]
  by auto

text \<open>
  The effect of a whole run: an early stop, or the registration of the extracted data of
  a validated download under its (non-null) graph id, with the effect of lines 26--32.
\<close>

lemma set_up_graph_data_effect:
  assumes run: "set_up_graph_data env w = (res, w')"
  shows "(graph_file w' = graph_file w \<and> db w' = db w
          \<and> res \<in> {Finished, Crashed AttributeError, Crashed TypeError}
          \<and> stdout w' \<noteq> stdout w @ [msg_exists] \<and> stdout w' \<noteq> stdout w @ [msg_inserted])
       \<or> (\<exists>xml doc gd g. download_graph (environ env) (http_get env) = Some xml
            \<and> verify_graph_data (parser env) xml = Inr doc
            \<and> extract_graph_data (flt env) doc = Inr gd \<and> fst gd = Some g \<and> graph_file w' = Some g
            \<and> (if \<not> db_reachable env
               then res = Crashed (DbError msg_connect_failed) \<and> db w' = db w \<and> stdout w' = stdout w
               else if graph_id_exists (Some g) (db w)
               then res = Finished \<and> db w' = db w \<and> stdout w' = stdout w @ [msg_exists]
               else if insert_commits env
               then res = Finished \<and> db w' = store_insert gd (db w) \<and> stdout w' = stdout w @ [msg_inserted]
               else res = Crashed (DbError ''insert failed'') \<and> db w' = db w \<and> stdout w' = stdout w))"
  using set_up_graph_data_cases[OF run]
proof
  assume "\<exists>xml doc gd. download_graph (environ env) (http_get env) = Some xml
            \<and> verify_graph_data (parser env) xml = Inr doc
            \<and> extract_graph_data (flt env) doc = Inr gd \<and> register_and_insert env gd w = (res, w')"
  then obtain xml doc gd where d: "download_graph (environ env) (http_get env) = Some xml"
    and v: "verify_graph_data (parser env) xml = Inr doc"
    and e: "extract_graph_data (flt env) doc = Inr gd"
    and r: "register_and_insert env gd w = (res, w')" by blast
  obtain g where g: "fst gd = Some g" using registered_id[OF v e] by blast
  show ?thesis using d v e g register_and_insert_effect[OF r g] by blast
qed blast

text \<open>A run that prints the success line has inserted its data under a fresh, non-null id.\<close>

lemma set_up_graph_data_inserted:
  assumes run: "set_up_graph_data env w = (res, w')" and ins: "stdout w' = stdout w @ [msg_inserted]"
  shows "\<exists>gd g. fst gd = Some g \<and> graph_file w' = Some g \<and> db w' = store_insert gd (db w)
                \<and> \<not> graph_id_exists (Some g) (db w)"
  using set_up_graph_data_effect[OF run] ins by (auto simp: msg_exists_def msg_inserted_def split: if_splits)

text \<open>What a run does to the store alone.\<close>

lemma run_store_effect:
  assumes "set_up_graph_data env w = (res, w')"
  shows "db w' = db w \<or> (\<exists>gd. db w' = store_insert gd (db w) \<and> fst gd \<noteq> None
                                \<and> \<not> graph_id_exists (fst gd) (db w))"
  using set_up_graph_data_effect[OF assms] by (auto split: if_splits)

lemma ingest_run_store_inv:
  "set_up_graph_data env w = (res, w') \<Longrightarrow> store_inv (db w) \<Longrightarrow> store_inv (db w')"
  using run_store_effect store_inv_insert by metis

text \<open>
  C4: one run writes nothing to the store, or it ends with the success message having
  added exactly the rows of one graph whose non-null id was not in the store.
\<close>

theorem ingest_no_partial_write:
  assumes run: "set_up_graph_data env w = (res, w')"
  shows "db w' = db w
       \<or> (res = Finished \<and> stdout w' = stdout w @ [msg_inserted]
          \<and> (\<exists>gd. db w' = store_insert gd (db w) \<and> fst gd \<noteq> None \<and> \<not> graph_id_exists (fst gd) (db w)))"
  using set_up_graph_data_effect[OF run] by (auto split: if_splits)

text \<open>
  C6: a run that reports that the graph id already exists has written nothing to the
  store, yet it has pointed \<open>graph_id.txt\<close> at the graph id of the rejected document
  (\<open>set_graph_id\<close> runs before \<open>graph_id_exists\<close>, line 26), an id already in the store.
\<close>

theorem ingest_exists_sets_active_id:
  assumes run: "set_up_graph_data env w = (res, w')" and msg: "stdout w' = stdout w @ [msg_exists]"
  shows "res = Finished \<and> db w' = db w
       \<and> (\<exists>xml doc gd g. download_graph (environ env) (http_get env) = Some xml
            \<and> verify_graph_data (parser env) xml = Inr doc \<and> extract_graph_data (flt env) doc = Inr gd
            \<and> fst gd = Some g \<and> graph_file w' = Some g \<and> graph_id_exists (Some g) (db w))"
  using set_up_graph_data_effect[OF run] msg
  by (auto simp: msg_exists_def msg_inserted_def split: if_splits)

text \<open>
  C7: a run that crashes on a failing insert leaves \<open>graph_id.txt\<close> naming a graph that
  is not in the store: the query service then reads an active graph id with no rows
  behind it.
\<close>

theorem ingest_db_error_dangling_active_id:
  assumes run: "set_up_graph_data env w = (Crashed (DbError ''insert failed''), w')"
  shows "\<exists>g. graph_file w' = Some g \<and> \<not> graph_id_exists (Some g) (db w')"
  using set_up_graph_data_effect[OF run] by (auto simp: msg_connect_failed_def split: if_splits)

text \<open>
  C15: when the server refuses the connection parameters of \<open>get_db_connection\<close>, no run
  changes the store or reports a result of the registration: the run stops before line 26,
  or it crashes with the connection error after \<open>set_graph_id\<close> has already rewritten
  \<open>graph_id.txt\<close> with the new document's id.
\<close>

theorem ingest_db_unreachable:
  assumes down: "\<not> db_connects env (get_db_connection (environ env))"
    and run: "set_up_graph_data env w = (res, w')"
  shows "db w' = db w \<and> stdout w' \<noteq> stdout w @ [msg_exists] \<and> stdout w' \<noteq> stdout w @ [msg_inserted]
       \<and> (res = Crashed (DbError msg_connect_failed) \<longrightarrow> graph_file w' \<noteq> None)"
  using set_up_graph_data_effect[OF run] down
  by (auto simp: db_reachable_def msg_connect_failed_def)

text \<open>
  C20: the success path. A validated download whose extracted node and edge ids are
  unique, with a reachable database that commits and a graph id not yet stored, ends
  with \<open>graph_id.txt\<close> naming the graph id, the graph's rows added to the store, and the
  success line as the only output.
\<close>

theorem set_up_graph_data_success:
  assumes d: "download_graph (environ env) (http_get env) = Some xml"
    and v: "verify_graph_data (parser env) xml = Inr doc"
    and e: "extract_graph_data (flt env) doc = Inr gd"
    and u: "verify_unique_ids (fst (snd (snd gd)))" "verify_unique_ids (snd (snd (snd gd)))"
    and c: "db_reachable env" "insert_commits env"
    and f: "\<not> graph_id_exists (fst gd) (db w)"
  shows "set_up_graph_data env w =
           (Finished, w\<lparr>graph_file := fst gd, db := store_insert gd (db w), stdout := stdout w @ [msg_inserted]\<rparr>)"
proof -
  obtain g where g: "fst gd = Some g" using registered_id[OF v e] by blast
  have "register_and_insert env gd w =
          (Finished, w\<lparr>graph_file := fst gd, db := store_insert gd (db w), stdout := stdout w @ [msg_inserted]\<rparr>)"
    using g c f by (simp add: register_and_insert_def set_graph_id_def query_graph_id_exists_def
        insert_graph_data_def open_connection_def emit_def)
  then show ?thesis using d v e u by (simp add: set_up_graph_data_def)
qed

section \<open>Witnesses on the sample run\<close>

lemma sample_run_first:
  "set_up_graph_data sample_env init_world =
     (Finished, \<lparr>graph_file = Some ''g0'', db = store_insert sample_data empty_store, stdout = [msg_inserted]\<rparr>)"
  by (simp add: sample_env_def sample_valid_def schema_eval run_eval init_world_def empty_store_def
      sample_data_def)

lemma sample_run_second:
  "set_up_graph_data sample_env
     \<lparr>graph_file = Some ''g0'', db = store_insert sample_data empty_store, stdout = [msg_inserted]\<rparr> =
   (Finished, \<lparr>graph_file = Some ''g0'', db = store_insert sample_data empty_store,
               stdout = [msg_inserted, msg_exists]\<rparr>)"
  by (simp add: sample_env_def sample_valid_def schema_eval run_eval empty_store_def sample_data_def
      store_insert_def)

lemma sample_run_db_fails:
  "set_up_graph_data sample_env_db_fails init_world =
     (Crashed (DbError ''insert failed''), \<lparr>graph_file = Some ''g0'', db = empty_store, stdout = []\<rparr>)"
  by (simp add: sample_env_db_fails_def sample_env_def sample_valid_def schema_eval run_eval
      init_world_def empty_store_def)

lemma sample_run_db_down:
  "set_up_graph_data sample_env_db_down init_world =
     (Crashed (DbError msg_connect_failed), \<lparr>graph_file = Some ''g0'', db = empty_store, stdout = []\<rparr>)"
  by (simp add: sample_env_db_down_def sample_env_def sample_valid_def schema_eval run_eval
      init_world_def empty_store_def)

theorem ingest_no_partial_write_witness:
  "set_up_graph_data sample_env init_world =
     (Finished, \<lparr>graph_file = Some ''g0'', db = store_insert sample_data empty_store, stdout = [msg_inserted]\<rparr>)
   \<and> db init_world \<noteq> store_insert sample_data empty_store
   \<and> (store_insert sample_data empty_store = db init_world
      \<or> (Finished = Finished \<and> [msg_inserted] = stdout init_world @ [msg_inserted]
         \<and> (\<exists>gd. store_insert sample_data empty_store = store_insert gd (db init_world)
                 \<and> fst gd \<noteq> None \<and> \<not> graph_id_exists (fst gd) (db init_world))))"
  using ingest_no_partial_write[OF sample_run_first] sample_run_first
  by (simp add: init_world_def empty_store_def store_insert_def sample_data_def)

theorem ingest_exists_sets_active_id_witness:
  "graph_id_exists (Some ''g0'') (store_insert sample_data empty_store)
   \<and> graph_file \<lparr>graph_file = Some ''g0'', db = store_insert sample_data empty_store,
                  stdout = [msg_inserted, msg_exists]\<rparr> = Some ''g0''"
  using ingest_exists_sets_active_id[OF sample_run_second] by auto

theorem ingest_db_error_dangling_active_id_witness:
  "graph_file \<lparr>graph_file = Some ''g0'', db = empty_store, stdout = []\<rparr> = Some ''g0''
   \<and> \<not> graph_id_exists (Some ''g0'') empty_store"
  using ingest_db_error_dangling_active_id[OF sample_run_db_fails] by simp

theorem ingest_db_unreachable_witness:
  "\<not> db_connects sample_env_db_down (get_db_connection (environ sample_env_db_down))
   \<and> graph_file \<lparr>graph_file = Some ''g0'', db = empty_store, stdout = []\<rparr> \<noteq> None"
  using ingest_db_unreachable[OF _ sample_run_db_down]
  by (simp add: sample_env_db_down_def)

theorem set_up_graph_data_success_witness:
  "set_up_graph_data sample_env init_world =
     (Finished, \<lparr>graph_file = Some ''g0'', db = store_insert sample_data empty_store, stdout = [msg_inserted]\<rparr>)"
proof -
  have d: "download_graph (environ sample_env) (http_get sample_env) = Some ''<graph>...</graph>''"
    by (simp add: sample_env_def download_graph_def)
  have v: "verify_graph_data (parser sample_env) ''<graph>...</graph>'' = Inr sample_valid"
    by (simp add: sample_env_def verify_graph_data_def sample_valid_def schema_eval)
  have e: "extract_graph_data (flt sample_env) sample_valid = Inr sample_data"
    by (simp add: sample_env_def sample_valid_def sample_data_def extract_graph_data_def iter_find_def
        find_text_def find_def edge_cost_def)
  have u: "verify_unique_ids (fst (snd (snd sample_data)))" "verify_unique_ids (snd (snd (snd sample_data)))"
    by (simp_all add: sample_data_def)
  have c: "db_reachable sample_env" "insert_commits sample_env"
    by (simp_all add: sample_env_def db_reachable_def)
  have f: "\<not> graph_id_exists (fst sample_data) (db init_world)"
    by (simp add: init_world_def empty_store_def graph_id_exists_def)
  show ?thesis using set_up_graph_data_success[OF d v e u c f]
    by (simp add: init_world_def sample_data_def)
qed

end
