(* ===== verification/Manager.thy ===== *)
theory Manager
  imports Ingest
begin

text \<open>
  The process entry of \<open>src/manager.py\<close>: \<open>run_setup\<close> (lines 4--7) prints its banner and
  runs one ingest, \<open>wait_for_queries\<close> (lines 10--13) prints the second banner and blocks
  on \<open>input()\<close>, and the main block (lines 16--18) runs the two in sequence. \<open>input()\<close>
  reads a line of stdin, or raises \<open>EOFError\<close> when stdin is closed; which of the two
  happens is an input of the run. The file and the store outlive the process, so the
  worlds reachable from a fresh deployment are those of any sequence of manager runs, each
  in its own environment, crashed runs included (\<open>ingest_reach\<close>); the lemmas here hold
  of all of them.
\<close>

definition msg_running :: string where "msg_running = ''Running initial graph data setup...''"
definition msg_waiting :: string where "msg_waiting = ''Waiting for queries...''"

definition run_setup :: "ingest_env \<Rightarrow> world \<Rightarrow> outcome \<times> world" where
  "run_setup env w = set_up_graph_data env (emit msg_running w)"

definition wait_for_queries :: "string option \<Rightarrow> world \<Rightarrow> outcome \<times> world" where
  "wait_for_queries stdin w =
     (let w' = emit msg_waiting w in
      case stdin of None \<Rightarrow> (Crashed EOFError, w') | Some _ \<Rightarrow> (Finished, w'))"

definition manager_main :: "ingest_env \<Rightarrow> string option \<Rightarrow> world \<Rightarrow> outcome \<times> world" where
  "manager_main env stdin w =
     (case run_setup env w of
        (Crashed exc, w') \<Rightarrow> (Crashed exc, w')
      | (Finished, w') \<Rightarrow> wait_for_queries stdin w')"

inductive ingest_reach :: "world \<Rightarrow> bool" where
  start: "ingest_reach init_world"
| run: "ingest_reach w \<Longrightarrow> manager_main env stdin w = (res, w') \<Longrightarrow> ingest_reach w'"

inductive_cases ingest_reach_runE: "ingest_reach w'"

section \<open>Lemmas\<close>

text \<open>The banners change neither \<open>graph_id.txt\<close> nor the store.\<close>

lemma emit_keeps [simp]: "db (emit l w) = db w" "graph_file (emit l w) = graph_file w"
  by (simp_all add: emit_def)

lemma manager_main_setup:
  assumes "manager_main env stdin w = (res, w')"
  obtains r w1 where "set_up_graph_data env (emit msg_running w) = (r, w1)"
    and "db w' = db w1" and "graph_file w' = graph_file w1"
  using assms
  by (cases "run_setup env w") (auto simp: manager_main_def run_setup_def wait_for_queries_def
      Let_def split: outcome.splits option.splits)

lemma manager_store_inv:
  assumes "manager_main env stdin w = (res, w')" and "store_inv (db w)"
  shows "store_inv (db w')"
  using assms by (elim manager_main_setup) (metis emit_keeps(1) ingest_run_store_inv)

lemma manager_keeps_file:
  assumes "manager_main env stdin w = (res, w')" and "graph_file w \<noteq> None"
  shows "graph_file w' \<noteq> None"
  using assms(1)
proof (rule manager_main_setup)
  fix r w1
  assume s: "set_up_graph_data env (emit msg_running w) = (r, w1)" and f: "graph_file w' = graph_file w1"
  show ?thesis using set_up_graph_data_effect[OF s] assms(2) f by auto
qed

text \<open>A manager run leaves file and store as they were, or it leaves a \<open>graph_id.txt\<close>.\<close>

lemma manager_effect_file:
  assumes "manager_main env stdin w = (res, w')"
  shows "(graph_file w' = graph_file w \<and> db w' = db w) \<or> graph_file w' \<noteq> None"
  using assms
proof (rule manager_main_setup)
  fix r w1
  assume s: "set_up_graph_data env (emit msg_running w) = (r, w1)"
    and "db w' = db w1" and "graph_file w' = graph_file w1"
  then show ?thesis using set_up_graph_data_effect[OF s] by auto
qed

text \<open>C5: in every world reachable by manager runs the store keeps its integrity.\<close>

theorem ingest_reach_store_inv: "ingest_reach w \<Longrightarrow> store_inv (db w)"
proof (induction rule: ingest_reach.induct)
  case start
  show ?case by (simp add: init_world_def store_inv_empty)
next
  case (run w env stdin res w')
  then show ?case by (blast intro: manager_store_inv)
qed

text \<open>
  C16: every manager run refines the abstract registry (theory \<open>Store\<close>): the map from
  graph id to graph is unchanged, or it gains, at an id it did not hold, exactly the
  graph extracted from the validated download of this run.
\<close>

theorem manager_refines_registry:
  assumes inv: "store_inv (db w)" and run: "manager_main env stdin w = (res, w')"
  shows "store_abs (db w') = store_abs (db w)
       \<or> (\<exists>xml doc gd. download_graph (environ env) (http_get env) = Some xml
            \<and> verify_graph_data (parser env) xml = Inr doc \<and> extract_graph_data (flt env) doc = Inr gd
            \<and> fst gd \<notin> dom (store_abs (db w)) \<and> store_abs (db w') = (store_abs (db w))(fst gd \<mapsto> snd gd))"
  using run
proof (rule manager_main_setup)
  fix r w1
  assume s: "set_up_graph_data env (emit msg_running w) = (r, w1)" and d: "db w' = db w1"
  have inv': "store_inv (db (emit msg_running w))" using inv by simp
  show ?thesis
    using set_up_graph_data_effect[OF s] d store_abs_insert[OF inv'] graph_id_exists_abs[OF inv']
    by (auto simp del: domIff split: if_splits) (metis domD prod_cases3)
qed

text \<open>
  C17: in every reachable world in which the store holds a graph, \<open>graph_id.txt\<close> exists,
  so the query service's \<open>get_graph_id\<close> does not raise \<open>FileNotFoundError\<close> once a graph
  has been ingested.
\<close>

theorem ingest_reach_file_exists:
  "ingest_reach w \<Longrightarrow> graphs (db w) \<noteq> [] \<Longrightarrow> graph_file w \<noteq> None"
proof (induction rule: ingest_reach.induct)
  case start
  then show ?case by (simp add: init_world_def empty_store_def)
next
  case (run w env stdin res w')
  then show ?case using manager_effect_file[OF run(2)] by auto
qed

section \<open>Witnesses\<close>

lemma sample_manager_first:
  "manager_main sample_env (Some '''') init_world =
     (Finished, \<lparr>graph_file = Some ''g0'', db = store_insert sample_data empty_store,
                 stdout = [msg_running, msg_inserted, msg_waiting]\<rparr>)"
  by (simp add: manager_main_def run_setup_def wait_for_queries_def sample_env_def sample_valid_def
      schema_eval run_eval init_world_def empty_store_def sample_data_def)

theorem ingest_reach_store_inv_witness:
  "ingest_reach \<lparr>graph_file = Some ''g0'', db = store_insert sample_data empty_store,
                 stdout = [msg_running, msg_inserted, msg_waiting]\<rparr>
   \<and> store_inv (store_insert sample_data empty_store)"
proof -
  have r: "ingest_reach \<lparr>graph_file = Some ''g0'', db = store_insert sample_data empty_store,
                         stdout = [msg_running, msg_inserted, msg_waiting]\<rparr>"
    by (rule ingest_reach.run[OF ingest_reach.start sample_manager_first])
  show ?thesis using r ingest_reach_store_inv[OF r] by simp
qed

theorem manager_refines_registry_witness:
  "store_inv (db init_world)
   \<and> manager_main sample_env (Some '''') init_world =
       (Finished, \<lparr>graph_file = Some ''g0'', db = store_insert sample_data empty_store,
                   stdout = [msg_running, msg_inserted, msg_waiting]\<rparr>)
   \<and> (store_abs (store_insert sample_data empty_store) = store_abs (db init_world)
      \<or> (\<exists>xml doc gd. download_graph (environ sample_env) (http_get sample_env) = Some xml
           \<and> verify_graph_data (parser sample_env) xml = Inr doc
           \<and> extract_graph_data (flt sample_env) doc = Inr gd
           \<and> fst gd \<notin> dom (store_abs (db init_world))
           \<and> store_abs (store_insert sample_data empty_store) = (store_abs (db init_world))(fst gd \<mapsto> snd gd)))"
proof -
  have i: "store_inv (db init_world)" by (simp add: init_world_def store_inv_empty)
  show ?thesis using manager_refines_registry[OF i sample_manager_first] i sample_manager_first
    by simp
qed

theorem ingest_reach_file_exists_witness:
  "ingest_reach \<lparr>graph_file = Some ''g0'', db = store_insert sample_data empty_store,
                 stdout = [msg_running, msg_inserted, msg_waiting]\<rparr>
   \<and> graphs (store_insert sample_data empty_store) \<noteq> []
   \<and> Some ''g0'' \<noteq> None"
proof -
  have r: "ingest_reach \<lparr>graph_file = Some ''g0'', db = store_insert sample_data empty_store,
                         stdout = [msg_running, msg_inserted, msg_waiting]\<rparr>"
    by (rule ingest_reach.run[OF ingest_reach.start sample_manager_first])
  have g: "graphs (store_insert sample_data empty_store) \<noteq> []" by (simp add: sample_data_def)
  show ?thesis using r g ingest_reach_file_exists[OF r] by simp
qed

end
