(* ===== verification/Json.thy ===== *)
theory Json
  imports Prelude
begin

text \<open>
  The values \<open>json.loads\<close> returns and the Python operations the query service applies
  to them (\<open>src/src/query_service/query_listener.py\<close>): truth testing (\<open>not query\<close>),
  \<open>k in v\<close> for a string \<open>k\<close>, \<open>v[k]\<close>, \<open>isinstance\<close>, iteration, and hashing as a
  dictionary key. A JSON object is the list of its members in document order;
  \<open>json.loads\<close> keeps the last of repeated keys, so lookups read the list from the end.
  JSON numbers are Python \<open>int\<close>s; fractional numbers (Python \<open>float\<close>) are not modelled.
  The decoder \<open>json.loads\<close> itself is a library the code only calls: a parameter of
  type \<open>string \<Rightarrow> json option\<close> (\<open>None\<close> is \<open>JSONDecodeError\<close>).
\<close>

datatype json =
    JNull
  | JBool bool
  | JInt int
  | JStr string
  | JArr "json list"
  | JObj "(string \<times> json) list"

text \<open>\<open>bool(v)\<close>.\<close>

fun py_truthy :: "json \<Rightarrow> bool" where
  "py_truthy JNull = False"
| "py_truthy (JBool b) = b"
| "py_truthy (JInt i) = (i \<noteq> 0)"
| "py_truthy (JStr s) = (s \<noteq> [])"
| "py_truthy (JArr xs) = (xs \<noteq> [])"
| "py_truthy (JObj kvs) = (kvs \<noteq> [])"

text \<open>
  \<open>k in v\<close> for a string \<open>k\<close>: a key of a dict, an element of a list, a substring of a
  string; \<open>TypeError\<close> for a number, a boolean or \<open>None\<close>.
\<close>

fun json_in :: "string \<Rightarrow> json \<Rightarrow> bool pyres" where
  "json_in k (JObj kvs) = Inr (k \<in> fst ` set kvs)"
| "json_in k (JArr xs) = Inr (JStr k \<in> set xs)"
| "json_in k (JStr s) = Inr (py_substr k s)"
| "json_in k _ = Inl TypeError"

text \<open>
  \<open>v[k]\<close> for a string \<open>k\<close>: \<open>KeyError\<close> for a dict without the key, \<open>TypeError\<close> for
  every other kind of value (list and string indices must be integers).
\<close>

fun json_getitem :: "json \<Rightarrow> string \<Rightarrow> json pyres" where
  "json_getitem (JObj kvs) k = (case map_of (rev kvs) k of None \<Rightarrow> Inl KeyError | Some v \<Rightarrow> Inr v)"
| "json_getitem _ k = Inl TypeError"

fun is_dict :: "json \<Rightarrow> bool" where
  "is_dict (JObj _) = True"
| "is_dict _ = False"

fun is_list :: "json \<Rightarrow> bool" where
  "is_list (JArr _) = True"
| "is_list _ = False"

text \<open>\<open>for x in v\<close>: list elements, dict keys, string characters; others raise.\<close>

fun py_iter :: "json \<Rightarrow> json list pyres" where
  "py_iter (JArr xs) = Inr xs"
| "py_iter (JObj kvs) = Inr (map (JStr \<circ> fst) kvs)"
| "py_iter (JStr s) = Inr (map (\<lambda>c. JStr [c]) s)"
| "py_iter _ = Inl TypeError"

text \<open>
  Hashing a value as part of a dictionary key: lists and dicts are unhashable
  (\<open>TypeError\<close>); \<open>True == 1\<close> and \<open>False == 0\<close> hash alike, so a key is compared
  through \<open>hash_norm\<close>, which identifies a boolean with its integer.
\<close>

fun hash_norm :: "json \<Rightarrow> json" where
  "hash_norm (JBool b) = JInt (if b then 1 else 0)"
| "hash_norm v = v"

fun hashable :: "json \<Rightarrow> bool" where
  "hashable (JArr _) = False"
| "hashable (JObj _) = False"
| "hashable _ = True"

section \<open>Lemmas\<close>

lemma json_in_obj_iff [simp]: "json_in k (JObj kvs) = Inr b \<longleftrightarrow> b = (k \<in> fst ` set kvs)"
  by auto

lemma json_getitem_Inr: "json_getitem v k = Inr x \<Longrightarrow> \<exists>kvs. v = JObj kvs \<and> map_of (rev kvs) k = Some x"
  by (cases v) (auto split: option.splits)

lemma json_getitem_obj_key: "json_getitem (JObj kvs) k = Inr x \<longleftrightarrow> map_of (rev kvs) k = Some x"
  by (auto split: option.splits)

lemma map_of_rev_dom: "(map_of (rev kvs) k \<noteq> None) \<longleftrightarrow> k \<in> fst ` set kvs"
  by (simp add: map_of_eq_None_iff)

lemma map_of_rev_key: "map_of (rev kvs) k = Some v \<Longrightarrow> k \<in> fst ` set kvs"
  by (metis map_of_rev_dom option.distinct(1))

lemma hash_norm_idem [simp]: "hash_norm (hash_norm v) = hash_norm v"
  by (cases v) auto

lemma hashable_norm [simp]: "hashable (hash_norm v) = hashable v"
  by (cases v) auto

end
