(* ===== verification/QueryFormat.thy ===== *)
theory QueryFormat
  imports Json
begin

text \<open>
  \<open>verify_correct_query_format\<close> and \<open>verify_valid_json\<close> of
  \<open>src/src/query_service/query_listener.py\<close> (lines 89--111). The check returns a
  Python boolean, or raises where an \<open>in\<close> or an index is applied to a value of the wrong
  kind. The declarative format of spec section 4.5 is \<open>query_spec_ok\<close>/\<open>batch_ok\<close>.
\<close>

text \<open>
  \<open>"start" not in sub or "end" not in sub\<close>, negated: both keys are in \<open>sub\<close>, the
  second test evaluated only when the first passes.
\<close>

definition has_start_end :: "json \<Rightarrow> bool pyres" where
  "has_start_end sub =
     res_bind (json_in ''start'' sub) (\<lambda>s. if \<not> s then Inr False else json_in ''end'' sub)"

text \<open>One element of the \<open>queries\<close> list (lines 95--104).\<close>

definition verify_query :: "json \<Rightarrow> bool pyres" where
  "verify_query q =
     (case q of
        JObj kvs \<Rightarrow>
          (let hp = ''paths'' \<in> fst ` set kvs; hc = ''cheapest'' \<in> fst ` set kvs in
           if \<not> hp \<and> \<not> hc then Inr False
           else if hp \<and> hc then Inr False
           else if hp then res_bind (json_getitem q ''paths'') has_start_end
           else res_bind (json_getitem q ''cheapest'') has_start_end)
      | _ \<Rightarrow> Inr False)"

fun verify_queries :: "json list \<Rightarrow> bool pyres" where
  "verify_queries [] = Inr True"
| "verify_queries (q # qs) =
     res_bind (verify_query q) (\<lambda>ok. if \<not> ok then Inr False else verify_queries qs)"

definition verify_correct_query_format :: "json \<Rightarrow> bool pyres" where
  "verify_correct_query_format queries =
     res_bind (json_in ''queries'' queries) (\<lambda>has.
       if \<not> has then Inr False
       else res_bind (json_getitem queries ''queries'') (\<lambda>qs.
         case qs of JArr xs \<Rightarrow> verify_queries xs | _ \<Rightarrow> Inr False))"

definition verify_valid_json :: "(string \<Rightarrow> json option) \<Rightarrow> string \<Rightarrow> json option" where
  "verify_valid_json loads query = loads query"

section \<open>The format as a predicate\<close>

text \<open>
  Spec section 4.5: a query is a mapping with exactly one of \<open>paths\<close>/\<open>cheapest\<close>, whose
  value is a mapping holding \<open>start\<close> and \<open>end\<close>; a batch is a mapping whose \<open>queries\<close>
  is a list of such queries.
\<close>

definition sub_ok :: "json \<Rightarrow> bool" where
  "sub_ok v = (case v of JObj kvs \<Rightarrow> ''start'' \<in> fst ` set kvs \<and> ''end'' \<in> fst ` set kvs | _ \<Rightarrow> False)"

definition query_spec_ok :: "json \<Rightarrow> bool" where
  "query_spec_ok q =
     (case q of
        JObj kvs \<Rightarrow>
          (''paths'' \<in> fst ` set kvs) \<noteq> (''cheapest'' \<in> fst ` set kvs)
          \<and> (case map_of (rev kvs) ''paths'' of Some v \<Rightarrow> sub_ok v | None \<Rightarrow> True)
          \<and> (case map_of (rev kvs) ''cheapest'' of Some v \<Rightarrow> sub_ok v | None \<Rightarrow> True)
      | _ \<Rightarrow> False)"

definition batch_ok :: "json \<Rightarrow> bool" where
  "batch_ok b =
     (case b of
        JObj kvs \<Rightarrow> (case map_of (rev kvs) ''queries'' of Some (JArr xs) \<Rightarrow> list_all query_spec_ok xs | _ \<Rightarrow> False)
      | _ \<Rightarrow> False)"

section \<open>Sample batches\<close>

text \<open>
  Batches of spec section 8: a \<open>paths\<close> query for \<open>(a, b)\<close>, the \<open>cheapest\<close> query
  for the same pair and the \<open>paths\<close> query again; and two \<open>paths\<close> queries for
  \<open>(a, b)\<close> and \<open>(b, a)\<close>; a query without \<open>end\<close>; a query whose
  \<open>paths\<close> is the string \<open>"startend"\<close>.
\<close>

definition pq :: "string \<Rightarrow> string \<Rightarrow> string \<Rightarrow> json" where
  "pq kind s e = JObj [(kind, JObj [(''start'', JStr s), (''end'', JStr e)])]"

definition batch_shared :: json where
  "batch_shared = JObj [(''queries'', JArr [pq ''paths'' ''a'' ''b'', pq ''cheapest'' ''a'' ''b'', pq ''paths'' ''a'' ''b''])]"

definition batch_missing_end :: json where
  "batch_missing_end = JObj [(''queries'', JArr [JObj [(''paths'', JObj [(''start'', JStr ''a'')])]])]"

definition batch_str_sub :: json where
  "batch_str_sub = JObj [(''queries'', JArr [JObj [(''paths'', JStr ''startend'')]])]"

section \<open>Lemmas\<close>

lemma has_start_end_ok: "sub_ok v \<Longrightarrow> has_start_end v = Inr True"
  by (auto simp: sub_ok_def has_start_end_def split: json.splits)

lemma verify_query_ok: "query_spec_ok q \<Longrightarrow> verify_query q = Inr True"
  by (auto simp: query_spec_ok_def verify_query_def Let_def has_start_end_ok map_of_eq_None_iff
      split: json.splits option.splits)

lemma verify_queries_ok: "list_all query_spec_ok xs \<Longrightarrow> verify_queries xs = Inr True"
  by (induction xs) (auto simp: verify_query_ok)

text \<open>C10: every batch of the documented format is accepted, without an exception.\<close>

theorem verify_format_complete: "batch_ok b \<Longrightarrow> verify_correct_query_format b = Inr True"
  by (auto simp: batch_ok_def verify_correct_query_format_def verify_queries_ok
      dest: map_of_rev_key split: json.splits option.splits)


lemmas format_eval = verify_correct_query_format_def verify_query_def has_start_end_def pq_def
  batch_ok_def query_spec_ok_def sub_ok_def

theorem verify_format_complete_witness:
  "batch_ok batch_shared \<and> verify_correct_query_format batch_shared = Inr True"
proof -
  have ok: "batch_ok batch_shared" by (simp add: batch_shared_def format_eval)
  show ?thesis using ok verify_format_complete[OF ok] by simp
qed


end
