(* ===== verification/Dispatch.thy ===== *)
theory Dispatch
  imports QueryFormat
begin

text \<open>
  \<open>get_graph_id\<close>, \<open>get_query_type_and_nodes\<close> and \<open>process_queries\<close> of
  \<open>src/src/query_service/query_listener.py\<close> (lines 9--48). The store's
  \<open>find_all_paths(start, end, graph_id)\<close> is the parameter \<open>fap\<close>: its rows
  \<open>(path, cost)\<close>, or the message of the \<open>psycopg2.Error\<close> it raises. The results
  dictionary is an association list in insertion order, looked up through
  \<open>hash_norm\<close> as Python's dict compares keys; the state also records the lookups
  issued, in order, which is what the deduplication is about.
\<close>

datatype query_type = Paths | Cheapest

fun qt_name :: "query_type \<Rightarrow> string" where
  "qt_name Paths = ''paths''"
| "qt_name Cheapest = ''cheapest''"

fun other_query_type :: "query_type \<Rightarrow> query_type" where
  "other_query_type Paths = Cheapest"
| "other_query_type Cheapest = Paths"

type_synonym row = "string list \<times> real"
type_synonym rkey = "json \<times> json \<times> query_type"
type_synonym path_lookup = "json \<Rightarrow> json \<Rightarrow> string \<Rightarrow> string + row list"

record dispatch_state =
  results :: "(rkey \<times> row list) list"
  lookups :: "(json \<times> json \<times> string) list"

datatype pq_result = PQ_Results dispatch_state | PQ_DbError string

text \<open>Lines 9--11: \<open>open\<close> raises when the file is missing; the content is stripped.\<close>

definition get_graph_id :: "string option \<Rightarrow> string pyres" where
  "get_graph_id file = (case file of None \<Rightarrow> Inl FileNotFoundError | Some s \<Rightarrow> Inr (py_strip s))"

text \<open>Lines 14--19.\<close>

definition get_query_type_and_nodes :: "json \<Rightarrow> (query_type \<times> json \<times> json) pyres" where
  "get_query_type_and_nodes query =
     res_bind (json_in ''paths'' query) (\<lambda>hp.
       let query_type = (if hp then Paths else Cheapest) in
       res_bind (json_getitem query (qt_name query_type)) (\<lambda>sub.
       res_bind (json_getitem sub ''start'') (\<lambda>start.
       res_bind (json_getitem sub ''end'') (\<lambda>end_node.
         Inr (query_type, start, end_node)))))"

definition key_norm :: "rkey \<Rightarrow> rkey" where
  "key_norm k = (case k of (s, e, qt) \<Rightarrow> (hash_norm s, hash_norm e, qt))"

text \<open>\<open>results.get(key)\<close>.\<close>

definition res_lookup :: "rkey \<Rightarrow> (rkey \<times> row list) list \<Rightarrow> row list option" where
  "res_lookup k rs = map_of (map (\<lambda>(k', v). (key_norm k', v)) rs) (key_norm k)"

text \<open>The loop of lines 28--47.\<close>

fun process_loop :: "path_lookup \<Rightarrow> string \<Rightarrow> json list \<Rightarrow> dispatch_state \<Rightarrow> pq_result pyres" where
  "process_loop fap g [] st = Inr (PQ_Results st)"
| "process_loop fap g (q # qs) st =
     res_bind (get_query_type_and_nodes q) (\<lambda>(query_type, start, end_node).
       if \<not> (hashable start \<and> hashable end_node) then Inl TypeError
       else if res_lookup (start, end_node, query_type) (results st) \<noteq> None
       then process_loop fap g qs st
       else (case res_lookup (start, end_node, other_query_type query_type) (results st) of
               Some rows \<Rightarrow>
                 process_loop fap g qs (st\<lparr>results := results st @ [((start, end_node, query_type), rows)]\<rparr>)
             | None \<Rightarrow>
                 (case fap start end_node g of
                    Inl msg \<Rightarrow> Inr (PQ_DbError msg)
                  | Inr rows \<Rightarrow>
                      process_loop fap g qs
                        (st\<lparr>results := results st @ [((start, end_node, query_type), rows)],
                            lookups := lookups st @ [(start, end_node, g)]\<rparr>))))"

definition empty_dispatch :: dispatch_state where
  "empty_dispatch = \<lparr>results = [], lookups = []\<rparr>"

text \<open>
  Lines 22--48. \<open>conn\<close> is the result of \<open>get_db_connection()\<close> at line 24: the open
  connection, or the \<open>psycopg2.Error\<close> that \<open>psycopg2.connect\<close> raises, outside the
  \<open>try\<close> of the loop.
\<close>

definition process_queries :: "unit pyres \<Rightarrow> path_lookup \<Rightarrow> string option \<Rightarrow> json \<Rightarrow> pq_result pyres" where
  "process_queries conn fap file queries =
     res_bind (get_graph_id file) (\<lambda>graph_id.
     res_bind conn (\<lambda>_.
     res_bind (json_getitem queries ''queries'') (\<lambda>qv.
     res_bind (py_iter qv) (\<lambda>qs.
       process_loop fap graph_id qs empty_dispatch))))"

section \<open>Specification side\<close>

text \<open>
  The node pair a query asks about, as the results dictionary compares it; the pair of
  a lookup; the pairs of a list in the order of their first occurrence.
\<close>

definition query_pair :: "json \<Rightarrow> (json \<times> json) option" where
  "query_pair q = (case get_query_type_and_nodes q of
                     Inr (qt, s, e) \<Rightarrow> Some (hash_norm s, hash_norm e) | Inl _ \<Rightarrow> None)"

definition lookup_pair :: "json \<times> json \<times> string \<Rightarrow> json \<times> json" where
  "lookup_pair l = (case l of (s, e, g) \<Rightarrow> (hash_norm s, hash_norm e))"

definition key_pair :: "rkey \<times> row list \<Rightarrow> json \<times> json" where
  "key_pair r = (case r of ((s, e, qt), rows) \<Rightarrow> (hash_norm s, hash_norm e))"

fun first_occ :: "'a list \<Rightarrow> 'a list \<Rightarrow> 'a list" where
  "first_occ seen [] = []"
| "first_occ seen (x # xs) = (if x \<in> set seen then first_occ seen xs else x # first_occ (x # seen) xs)"

text \<open>
  The loop invariant: the pairs answered in \<open>results\<close> are exactly the pairs looked up,
  and no pair was looked up twice.
\<close>

definition disp_inv :: "dispatch_state \<Rightarrow> bool" where
  "disp_inv st \<longleftrightarrow> key_pair ` set (results st) = set (map lookup_pair (lookups st))
                    \<and> distinct (map lookup_pair (lookups st))"

text \<open>
  Every answered entry holds the rows that one lookup of its pair, with the active graph
  id, returned.
\<close>

definition rows_inv :: "path_lookup \<Rightarrow> string \<Rightarrow> dispatch_state \<Rightarrow> bool" where
  "rows_inv fap g st \<longleftrightarrow>
     (\<forall>r \<in> set (results st). \<exists>l \<in> set (lookups st).
        lookup_pair l = key_pair r \<and> snd (snd l) = g \<and> fap (fst l) (fst (snd l)) g = Inr (snd r))"

section \<open>A sample store\<close>

text \<open>The store answers every lookup with the row \<open>(["a","b"], 1.0)\<close>.\<close>

definition fap_one_row :: path_lookup where
  "fap_one_row s e g = Inr [([''a'', ''b''], 1)]"

text \<open>The equations that evaluate the dispatcher on a concrete batch.\<close>

lemmas disp_eval = process_queries_def get_graph_id_def get_query_type_and_nodes_def
  res_lookup_def key_norm_def empty_dispatch_def pq_def py_strip_def py_isspace_def

section \<open>Lemmas\<close>

lemma first_occ_seen_cong: "set a = set b \<Longrightarrow> first_occ a xs = first_occ b xs"
proof (induction xs arbitrary: a b)
  case (Cons x xs)
  have "set (x # a) = set (x # b)" using Cons.prems by simp
  then show ?case using Cons.prems Cons.IH[of "x # a" "x # b"] Cons.IH[of a b] by simp
qed simp

lemma first_occ_set: "set (first_occ seen xs) = set xs - set seen"
  by (induction xs arbitrary: seen) auto

lemma first_occ_distinct: "distinct (first_occ seen xs)"
  by (induction xs arbitrary: seen) (auto simp: first_occ_set)

lemma lookup_pair_simp [simp]: "lookup_pair (s, e, g) = (hash_norm s, hash_norm e)"
  by (simp add: lookup_pair_def)

lemma key_pair_simp [simp]: "key_pair ((s, e, qt), rows) = (hash_norm s, hash_norm e)"
  by (simp add: key_pair_def)

lemma key_norm_eq [simp]: "key_norm (s, e, qt) = key_norm (s', e', qt') \<longleftrightarrow>
    hash_norm s = hash_norm s' \<and> hash_norm e = hash_norm e' \<and> qt = qt'"
  by (simp add: key_norm_def)

lemma res_lookup_snoc:
  "res_lookup k (rs @ [(k', v)]) =
     (case res_lookup k rs of Some w \<Rightarrow> Some w | None \<Rightarrow> if key_norm k = key_norm k' then Some v else None)"
  by (induction rs) (auto simp: res_lookup_def split: option.splits)

lemma res_lookup_member: "(k, v) \<in> set rs \<Longrightarrow> key_norm k = key_norm k' \<Longrightarrow> res_lookup k' rs \<noteq> None"
  by (induction rs) (auto simp: res_lookup_def)

lemma res_lookup_pair:
  "res_lookup (s, e, qt) rs \<noteq> None \<Longrightarrow> (hash_norm s, hash_norm e) \<in> key_pair ` set rs"
  by (induction rs) (auto simp: res_lookup_def key_pair_def key_norm_def split: if_splits)

lemma res_lookup_none_pair:
  assumes "res_lookup (s, e, qt) rs = None" and "res_lookup (s, e, other_query_type qt) rs = None"
  shows "(hash_norm s, hash_norm e) \<notin> key_pair ` set rs"
proof
  assume "(hash_norm s, hash_norm e) \<in> key_pair ` set rs"
  then obtain s' e' qt' v where m: "((s', e', qt'), v) \<in> set rs"
    and p: "hash_norm s' = hash_norm s" "hash_norm e' = hash_norm e"
    by (force simp: key_pair_def)
  have "qt' = qt \<or> qt' = other_query_type qt" by (cases qt; cases qt') auto
  then obtain k where "key_norm k = key_norm (s', e', qt')" and
    "k = (s, e, qt) \<or> k = (s, e, other_query_type qt)" using p by auto
  moreover have "res_lookup (s, e, qt') rs \<noteq> None"
    using res_lookup_member[OF m] p by simp
  ultimately show False using assms p by (auto simp: res_lookup_def key_norm_def)
qed


text \<open>
  The loop issues a lookup exactly for each pair not looked up before, in the order of
  first occurrence, and keeps the invariant.
\<close>

lemma process_loop_lookups:
  assumes "process_loop fap g qs st = Inr (PQ_Results st')" and "map query_pair qs = map Some ps"
    and "disp_inv st"
  shows "map lookup_pair (lookups st') =
           map lookup_pair (lookups st) @ first_occ (map lookup_pair (lookups st)) ps
         \<and> disp_inv st'"
  using assms
proof (induction qs arbitrary: st ps)
  case Nil
  then show ?case by simp
next
  case (Cons q qs)
  from Cons.prems(2) obtain p ps' where ps: "ps = p # ps'" "query_pair q = Some p"
    "map query_pair qs = map Some ps'" by (cases ps) auto
  from ps(2) obtain qt s e where gq: "get_query_type_and_nodes q = Inr (qt, s, e)"
    and p: "p = (hash_norm s, hash_norm e)"
    by (auto simp: query_pair_def split: sum.splits)
  let ?L = "map lookup_pair (lookups st)"
  have hash: "hashable s \<and> hashable e" using Cons.prems(1) gq by (auto split: if_splits)
  show ?case
  proof (cases "res_lookup (s, e, qt) (results st) \<noteq> None")
    case True
    then have "p \<in> set ?L"
      using res_lookup_pair[of s e qt "results st"] Cons.prems(3) p by (simp add: disp_inv_def)
    moreover have "process_loop fap g qs st = Inr (PQ_Results st')"
      using Cons.prems(1) gq True hash by simp
    ultimately show ?thesis using Cons.IH[of st ps'] ps Cons.prems(3) by simp
  next
    case False
    show ?thesis
    proof (cases "res_lookup (s, e, other_query_type qt) (results st)")
      case (Some rows)
      let ?st = "st\<lparr>results := results st @ [((s, e, qt), rows)]\<rparr>"
      have pin: "p \<in> set ?L"
        using res_lookup_pair[of s e "other_query_type qt"] Some Cons.prems(3) p
        by (auto simp: disp_inv_def)
      have inv: "disp_inv ?st" using pin Cons.prems(3) p by (auto simp: disp_inv_def)
      have "process_loop fap g qs ?st = Inr (PQ_Results st')"
        using Cons.prems(1) gq False Some hash by simp
      then show ?thesis using Cons.IH[OF _ ps(3) inv] pin ps by simp
    next
      case None
      then obtain rows where f: "fap s e g = Inr rows"
        using Cons.prems(1) gq False hash by (auto split: sum.splits)
      let ?st = "st\<lparr>results := results st @ [((s, e, qt), rows)], lookups := lookups st @ [(s, e, g)]\<rparr>"
      have pout: "p \<notin> set ?L"
        using res_lookup_none_pair[of s e qt "results st"] False None Cons.prems(3) p
        by (simp add: disp_inv_def)
      have inv: "disp_inv ?st"
        using pout Cons.prems(3) p by (auto simp: disp_inv_def)
      have "process_loop fap g qs ?st = Inr (PQ_Results st')"
        using Cons.prems(1) gq False None f hash by simp
      from Cons.IH[OF this ps(3) inv]
      have "map lookup_pair (lookups st') = (?L @ [p]) @ first_occ (?L @ [p]) ps' \<and> disp_inv st'"
        using p by simp
      moreover have "first_occ (?L @ [p]) ps' = first_occ (p # ?L) ps'"
        by (rule first_occ_seen_cong) auto
      ultimately show ?thesis using pout ps by simp
    qed
  qed
qed


lemma res_lookup_Some:
  "res_lookup k rs = Some v \<Longrightarrow> \<exists>r \<in> set rs. key_norm (fst r) = key_norm k \<and> snd r = v"
  by (induction rs) (auto simp: res_lookup_def split: if_splits)

lemma process_loop_Cons_cases:
  assumes "process_loop fap g (q # qs) st = Inr (PQ_Results st')"
    and "get_query_type_and_nodes q = Inr (qt, s, e)"
  shows "hashable s \<and> hashable e \<and>
    ((res_lookup (s, e, qt) (results st) \<noteq> None \<and> process_loop fap g qs st = Inr (PQ_Results st'))
     \<or> (\<exists>rows. res_lookup (s, e, qt) (results st) = None
          \<and> res_lookup (s, e, other_query_type qt) (results st) = Some rows
          \<and> process_loop fap g qs (st\<lparr>results := results st @ [((s, e, qt), rows)]\<rparr>) = Inr (PQ_Results st'))
     \<or> (\<exists>rows. res_lookup (s, e, qt) (results st) = None
          \<and> res_lookup (s, e, other_query_type qt) (results st) = None \<and> fap s e g = Inr rows
          \<and> process_loop fap g qs (st\<lparr>results := results st @ [((s, e, qt), rows)],
                                      lookups := lookups st @ [(s, e, g)]\<rparr>) = Inr (PQ_Results st')))"
  using assms by (auto split: if_splits option.splits sum.splits)

lemma process_loop_rows:
  assumes "process_loop fap g qs st = Inr (PQ_Results st')" and "rows_inv fap g st"
  shows "rows_inv fap g st'"
  using assms
proof (induction qs arbitrary: st)
  case Nil
  then show ?case by simp
next
  case (Cons q qs)
  obtain qt s e where gq: "get_query_type_and_nodes q = Inr (qt, s, e)"
    using Cons.prems(1) by (cases "get_query_type_and_nodes q") auto
  note c = process_loop_Cons_cases[OF Cons.prems(1) gq]
  show ?case
  proof (cases "res_lookup (s, e, qt) (results st) \<noteq> None")
    case True
    then show ?thesis using c Cons.IH Cons.prems(2) by auto
  next
    case False
    show ?thesis
    proof (cases "res_lookup (s, e, other_query_type qt) (results st)")
      case (Some rows)
      from res_lookup_Some[OF Some] obtain s' e' qt' where
        r: "((s', e', qt'), rows) \<in> set (results st)" and
        n: "hash_norm s' = hash_norm s" "hash_norm e' = hash_norm e"
        by (auto simp: key_norm_def)
      from Cons.prems(2) r obtain l where "l \<in> set (lookups st)"
        "lookup_pair l = (hash_norm s, hash_norm e)" "snd (snd l) = g" "fap (fst l) (fst (snd l)) g = Inr rows"
        using n unfolding rows_inv_def by fastforce
      then have "rows_inv fap g (st\<lparr>results := results st @ [((s, e, qt), rows)]\<rparr>)"
        using Cons.prems(2) unfolding rows_inv_def by auto
      then show ?thesis using c False Some Cons.IH by auto
    next
      case None
      with c False obtain rows where "fap s e g = Inr rows" and
        run: "process_loop fap g qs (st\<lparr>results := results st @ [((s, e, qt), rows)],
                                      lookups := lookups st @ [(s, e, g)]\<rparr>) = Inr (PQ_Results st')"
        by auto
      moreover have "rows_inv fap g (st\<lparr>results := results st @ [((s, e, qt), rows)],
                                        lookups := lookups st @ [(s, e, g)]\<rparr>)"
        using Cons.prems(2) \<open>fap s e g = Inr rows\<close> by (fastforce simp: rows_inv_def)
      ultimately show ?thesis using Cons.IH by blast
    qed
  qed
qed


lemma res_lookup_None_keys: "res_lookup k rs = None \<Longrightarrow> key_norm k \<notin> (key_norm \<circ> fst) ` set rs"
  by (induction rs) (auto simp: res_lookup_def split: if_splits)

lemma process_loop_keys:
  assumes "process_loop fap g qs st = Inr (PQ_Results st')" and "distinct (map (key_norm \<circ> fst) (results st))"
  shows "distinct (map (key_norm \<circ> fst) (results st'))"
  using assms
proof (induction qs arbitrary: st)
  case (Cons q qs)
  obtain qt s e where gq: "get_query_type_and_nodes q = Inr (qt, s, e)"
    using Cons.prems(1) by (cases "get_query_type_and_nodes q") auto
  show ?case
    using process_loop_Cons_cases[OF Cons.prems(1) gq] Cons.IH Cons.prems(2)
      res_lookup_None_keys[of "(s, e, qt)" "results st"]
    by (auto simp del: key_norm_eq)
qed simp

text \<open>Rows of two entries for the same pair come from the same lookup.\<close>

lemma shared_rows:
  assumes "disp_inv st" and "rows_inv fap g st"
    and "r1 \<in> set (results st)" and "r2 \<in> set (results st)" and "key_pair r1 = key_pair r2"
  shows "snd r1 = snd r2"
proof -
  obtain l1 where l1: "l1 \<in> set (lookups st)" "lookup_pair l1 = key_pair r1"
    "fap (fst l1) (fst (snd l1)) g = Inr (snd r1)"
    using assms(2,3) unfolding rows_inv_def by blast
  obtain l2 where l2: "l2 \<in> set (lookups st)" "lookup_pair l2 = key_pair r2"
    "fap (fst l2) (fst (snd l2)) g = Inr (snd r2)"
    using assms(2,4) unfolding rows_inv_def by blast
  have "l1 = l2"
    using assms(1,5) l1(1,2) l2(1,2) unfolding disp_inv_def by (metis distinct_map inj_onD)
  then show ?thesis using l1(3) l2(3) by simp
qed

lemma process_queries_loop:
  assumes "process_queries conn fap file b = Inr (PQ_Results st)" and "json_getitem b ''queries'' = Inr (JArr qs)"
  shows "\<exists>f. file = Some f \<and> process_loop fap (py_strip f) qs empty_dispatch = Inr (PQ_Results st)"
  using assms by (auto simp: process_queries_def get_graph_id_def res_bind_Inr_iff split: option.splits)

text \<open>Every lookup names the graph id read from \<open>graph_id.txt\<close>, stripped.\<close>

lemma process_loop_gid:
  "process_loop fap g qs st = Inr (PQ_Results st') \<Longrightarrow> \<forall>l \<in> set (lookups st). snd (snd l) = g
   \<Longrightarrow> \<forall>l \<in> set (lookups st'). snd (snd l) = g"
proof (induction qs arbitrary: st)
  case (Cons q qs)
  obtain qt s e where gq: "get_query_type_and_nodes q = Inr (qt, s, e)"
    using Cons.prems(1) by (cases "get_query_type_and_nodes q") auto
  show ?case
    using process_loop_Cons_cases[OF Cons.prems(1) gq]
  proof (elim conjE disjE exE)
    fix rows
    assume "process_loop fap g qs (st\<lparr>results := results st @ [((s, e, qt), rows)]\<rparr>) = Inr (PQ_Results st')"
    then show ?thesis using Cons.IH[of "st\<lparr>results := results st @ [((s, e, qt), rows)]\<rparr>"] Cons.prems(2) by simp
  next
    fix rows
    assume "process_loop fap g qs (st\<lparr>results := results st @ [((s, e, qt), rows)],
                                      lookups := lookups st @ [(s, e, g)]\<rparr>) = Inr (PQ_Results st')"
    then show ?thesis
      using Cons.IH[of "st\<lparr>results := results st @ [((s, e, qt), rows)], lookups := lookups st @ [(s, e, g)]\<rparr>"]
        Cons.prems(2) by simp
  qed (use Cons.IH Cons.prems(2) in auto)
qed simp

lemma process_queries_graph_id:
  "process_queries conn fap file b = Inr (PQ_Results st)
   \<Longrightarrow> \<exists>f. file = Some f \<and> (\<forall>l \<in> set (lookups st). snd (snd l) = py_strip f)"
  by (auto simp: process_queries_def get_graph_id_def res_bind_Inr_iff empty_dispatch_def
      dest!: process_loop_gid split: option.splits)

lemma empty_dispatch_invs: "disp_inv empty_dispatch" "rows_inv fap g empty_dispatch"
  by (simp_all add: empty_dispatch_def disp_inv_def rows_inv_def)

text \<open>
  C8: on a successful run, the lookups issued are one per distinct node pair of the batch,
  in the order of first occurrence: a pair asked twice, or asked for both kinds, costs one
  lookup, and the number of lookups is the number of distinct pairs.
\<close>

theorem process_queries_one_lookup_per_pair:
  assumes "process_queries conn fap file b = Inr (PQ_Results st)"
    and "json_getitem b ''queries'' = Inr (JArr qs)" and "map query_pair qs = map Some ps"
  shows "map lookup_pair (lookups st) = first_occ [] ps \<and> length (lookups st) = card (set ps)"
proof -
  obtain f where "process_loop fap (py_strip f) qs empty_dispatch = Inr (PQ_Results st)"
    using process_queries_loop[OF assms(1,2)] by blast
  from process_loop_lookups[OF this assms(3) empty_dispatch_invs(1)]
  have "map lookup_pair (lookups st) = first_occ [] ps" by (simp add: empty_dispatch_def)
  moreover have "length (first_occ [] ps) = card (set ps)"
    using first_occ_distinct[of "[]" ps] first_occ_set[of "[]" ps] by (metis distinct_card empty_set Diff_empty)
  ultimately show ?thesis by (metis length_map)
qed

text \<open>
  C9: on a successful run, every answered (start, end, kind) entry holds the rows of a
  lookup of its pair against the graph id read (stripped) from \<open>graph_id.txt\<close>; the two
  kinds asked for one pair hold the same rows; and no entry is answered twice.
\<close>

theorem process_queries_answers:
  assumes "process_queries conn fap (Some f) b = Inr (PQ_Results st)"
    and "json_getitem b ''queries'' = Inr (JArr qs)" and "map query_pair qs = map Some ps"
  shows "(\<forall>r \<in> set (results st). \<exists>s e. (hash_norm s, hash_norm e) = key_pair r
                                     \<and> fap s e (py_strip f) = Inr (snd r))
       \<and> (\<forall>r1 \<in> set (results st). \<forall>r2 \<in> set (results st). key_pair r1 = key_pair r2 \<longrightarrow> snd r1 = snd r2)
       \<and> distinct (map (key_norm \<circ> fst) (results st))"
proof -
  have run: "process_loop fap (py_strip f) qs empty_dispatch = Inr (PQ_Results st)"
    using process_queries_loop[OF assms(1,2)] by simp
  have inv: "disp_inv st" using process_loop_lookups[OF run assms(3) empty_dispatch_invs(1)] by simp
  have rows: "rows_inv fap (py_strip f) st" using process_loop_rows[OF run empty_dispatch_invs(2)] .
  have keys: "distinct (map (key_norm \<circ> fst) (results st))"
    using process_loop_keys[OF run] by (simp add: empty_dispatch_def)
  have "\<forall>r \<in> set (results st). \<exists>s e. (hash_norm s, hash_norm e) = key_pair r \<and> fap s e (py_strip f) = Inr (snd r)"
    using rows unfolding rows_inv_def by (fastforce simp: lookup_pair_def)
  then show ?thesis using shared_rows[OF inv rows] keys by blast
qed


section \<open>Witnesses and the ordered pair\<close>

lemma shared_batch_run:
  "process_queries (Inr ()) fap_one_row (Some ''g0'') batch_shared = Inr (PQ_Results
     \<lparr>results = [((JStr ''a'', JStr ''b'', Paths), [([''a'', ''b''], 1)]),
                 ((JStr ''a'', JStr ''b'', Cheapest), [([''a'', ''b''], 1)])],
      lookups = [(JStr ''a'', JStr ''b'', ''g0'')]\<rparr>)"
  by (simp add: disp_eval batch_shared_def fap_one_row_def)

lemma shared_batch_pairs:
  "json_getitem batch_shared ''queries'' = Inr (JArr [pq ''paths'' ''a'' ''b'', pq ''cheapest'' ''a'' ''b'', pq ''paths'' ''a'' ''b''])
   \<and> map query_pair [pq ''paths'' ''a'' ''b'', pq ''cheapest'' ''a'' ''b'', pq ''paths'' ''a'' ''b''] =
     map Some [(JStr ''a'', JStr ''b''), (JStr ''a'', JStr ''b''), (JStr ''a'', JStr ''b'')]"
  by (simp add: batch_shared_def query_pair_def disp_eval)

theorem process_queries_one_lookup_per_pair_witness:
  "length [(JStr ''a'', JStr ''b'', ''g0'')] = card (set [(JStr ''a'', JStr ''b''), (JStr ''a'', JStr ''b''), (JStr ''a'', JStr ''b'')])
   \<and> length [(JStr ''a'', JStr ''b'', ''g0'')] = 1"
  using process_queries_one_lookup_per_pair[OF shared_batch_run shared_batch_pairs[THEN conjunct1]
      shared_batch_pairs[THEN conjunct2]]
  by simp

theorem process_queries_answers_witness:
  "fap_one_row (JStr ''a'') (JStr ''b'') (py_strip ''g0'') = Inr [([''a'', ''b''], 1)]
   \<and> distinct (map (key_norm \<circ> fst) [((JStr ''a'', JStr ''b'', Paths), [([''a'', ''b''], 1::real)]),
                                      ((JStr ''a'', JStr ''b'', Cheapest), [([''a'', ''b''], 1)])])"
  using process_queries_answers[OF shared_batch_run shared_batch_pairs[THEN conjunct1]
      shared_batch_pairs[THEN conjunct2]]
  by (simp add: fap_one_row_def py_strip_def py_isspace_def)


end
