(* ===== verification/Normalize.thy ===== *)
theory Normalize
  imports Dispatch
begin

text \<open>
  \<open>tidy_up_results\<close>, \<open>format_paths_result\<close>, \<open>format_cheapest_result\<close> and
  \<open>format_results_to_json\<close> of \<open>src/src/query_service/query_listener.py\<close> (lines
  51--86). A path of a row is the list of node ids the store returns; in the answer it
  is a JSON list of strings. Python's \<open>sorted\<close> is stable, as is \<open>sort_key\<close>
  (an insertion sort). A row's cost is a real number: the model does not represent a
  NaN cost returned by \<open>find_all_paths\<close>, on which Python's \<open>sorted\<close> no longer
  yields a least element, so no property of the cheapest answer is claimed here.
  \<open>json.dumps(..., indent=2)\<close> is the printer \<open>json_dumps\<close>.
\<close>

type_synonym tidy_result = "query_type \<times> json \<times> json \<times> json"

definition path_json :: "string list \<Rightarrow> json" where
  "path_json p = JArr (map JStr p)"

text \<open>Lines 64--66.\<close>

definition format_paths_result :: "json \<Rightarrow> json \<Rightarrow> row list \<Rightarrow> tidy_result" where
  "format_paths_result start end_node paths = (Paths, start, end_node, JArr (map (path_json \<circ> fst) paths))"

text \<open>Lines 68--74: \<open>False\<close> when there is no row.\<close>

definition format_cheapest_result :: "json \<Rightarrow> json \<Rightarrow> row list \<Rightarrow> tidy_result" where
  "format_cheapest_result start end_node paths =
     (Cheapest, start, end_node,
      (case sort_key snd paths of [] \<Rightarrow> JBool False | r # _ \<Rightarrow> path_json (fst r)))"

text \<open>Lines 51--62.\<close>

definition tidy_up_results :: "(rkey \<times> row list) list \<Rightarrow> tidy_result list" where
  "tidy_up_results rs =
     map (\<lambda>((start, end_node, query_type), paths).
            if query_type = Paths then format_paths_result start end_node paths
            else format_cheapest_result start end_node paths) rs"

text \<open>
  The call \<open>tidy_up_results(results)\<close> on the value \<open>process_queries\<close> returned: the
  results dict, or \<open>None\<close> after a database error, whose \<open>.items()\<close> (line 54) raises
  \<open>AttributeError\<close>.
\<close>

definition tidy_up_results_py :: "(rkey \<times> row list) list option \<Rightarrow> tidy_result list pyres" where
  "tidy_up_results_py value =
     (case value of None \<Rightarrow> Inl AttributeError | Some rs \<Rightarrow> Inr (tidy_up_results rs))"

text \<open>Lines 77--84, the value before \<open>json.dumps\<close>.\<close>

definition answers_json :: "tidy_result list \<Rightarrow> json" where
  "answers_json tidy =
     JObj [(''answers'',
            JArr (map (\<lambda>(query_type, start, end_node, data).
                         JObj [(qt_name query_type,
                                JObj [(''from'', start), (''to'', end_node), (''paths'', data)])]) tidy))]"

section \<open>The printer of \<open>json.dumps(indent=2)\<close>\<close>

text \<open>
  Python's encoder with \<open>ensure_ascii\<close>: \<open>"\<close> and \<open>\\\<close> and the control characters with
  a short escape are written as such, every other character outside space to \<open>~\<close> as
  \<open>\u00XX\<close> in lowercase hexadecimal (a \<open>char\<close> is read as the code point of that
  value). A non-empty list or object puts each item on its own line, indented two spaces
  per level, items separated by \<open>,\<close>, a key from its value by \<open>": "\<close>.
\<close>

definition newline :: char where "newline = CHR 0x0A"

definition hex_digit :: "nat \<Rightarrow> char" where
  "hex_digit n = (if n < 10 then char_of (48 + n) else char_of (87 + n))"

definition escape_char :: "char \<Rightarrow> string" where
  "escape_char c =
     (let n = (of_char c :: nat); bs = CHR 0x5C in
      if n = 34 then [bs, CHR 0x22]
      else if n = 92 then [bs, bs]
      else if n = 10 then [bs, CHR ''n''] else if n = 13 then [bs, CHR ''r'']
      else if n = 9 then [bs, CHR ''t''] else if n = 8 then [bs, CHR ''b'']
      else if n = 12 then [bs, CHR ''f'']
      else if n < 32 \<or> 126 < n then [bs, CHR ''u'', CHR ''0'', CHR ''0'', hex_digit (n div 16), hex_digit (n mod 16)]
      else [c])"

definition quote_char :: char where "quote_char = CHR 0x22"

definition dumps_string :: "string \<Rightarrow> string" where
  "dumps_string s = [quote_char] @ concat (map escape_char s) @ [quote_char]"

text \<open>\<open>str(i)\<close> of an \<open>int\<close>: the decimal digits, most significant first, collected
  into an accumulator.\<close>

fun digits_acc :: "nat \<Rightarrow> nat list \<Rightarrow> nat list" where
  "digits_acc n acc = (if n < 10 then n mod 10 # acc else digits_acc (n div 10) (n mod 10 # acc))"

definition digit_char :: "nat \<Rightarrow> char" where
  "digit_char d = char_of (d + 48)"

definition py_str_int :: "int \<Rightarrow> string" where
  "py_str_int i =
     (let ds = map digit_char (digits_acc (nat \<bar>i\<bar>) []) in if i < 0 then CHR ''-'' # ds else ds)"

definition indent :: "nat \<Rightarrow> string" where
  "indent lvl = concat (replicate lvl ''  '')"

text \<open>\<open>sep.join(items)\<close>.\<close>

fun join_with :: "string \<Rightarrow> string list \<Rightarrow> string" where
  "join_with sep [] = []"
| "join_with sep [x] = x"
| "join_with sep (x # xs) = x @ sep @ join_with sep xs"

text \<open>The items of a non-empty container, each on its own line, separated by commas.\<close>

definition dumps_block :: "nat \<Rightarrow> string list \<Rightarrow> string" where
  "dumps_block lvl items = join_with '','' (map (\<lambda>it. [newline] @ indent (Suc lvl) @ it) items)
                           @ [newline] @ indent lvl"

fun json_dumps_at :: "nat \<Rightarrow> json \<Rightarrow> string" where
  "json_dumps_at lvl JNull = ''null''"
| "json_dumps_at lvl (JBool b) = (if b then ''true'' else ''false'')"
| "json_dumps_at lvl (JInt i) = py_str_int i"
| "json_dumps_at lvl (JStr s) = dumps_string s"
| "json_dumps_at lvl (JArr xs) =
     (if xs = [] then ''[]''
      else ''['' @ dumps_block lvl (map (json_dumps_at (Suc lvl)) xs) @ '']'')"
| "json_dumps_at lvl (JObj kvs) =
     (if kvs = [] then ''{}''
      else ''{'' @ dumps_block lvl (map (\<lambda>(k, v). dumps_string k @ '': '' @ json_dumps_at (Suc lvl) v) kvs)
           @ ''}'')"

definition json_dumps :: "json \<Rightarrow> string" where
  "json_dumps v = json_dumps_at 0 v"

definition format_results_to_json :: "tidy_result list \<Rightarrow> string" where
  "format_results_to_json tidy = json_dumps (answers_json tidy)"

text \<open>The number a list of decimal digits denotes, most significant first.\<close>

definition digits_value :: "nat list \<Rightarrow> nat" where
  "digits_value ds = foldl (\<lambda>a d. 10 * a + d) 0 ds"

section \<open>Lemmas on the integer printer\<close>

text \<open>\<open>digits_acc\<close> is unfolded one step at a time in these proofs.\<close>

declare digits_acc.simps [simp del]

lemma foldl_digits_shift:
  "foldl (\<lambda>a d. 10 * a + d) ((a::nat) + b) ds = foldl (\<lambda>a d. 10 * a + d) a ds + b * 10 ^ length ds"
proof (induction ds arbitrary: a b)
  case (Cons d ds)
  have "10 * (a + b) + d = (10 * a + d) + 10 * b" by simp
  then show ?case using Cons.IH[of "10 * a + d" "10 * b"] by (simp add: algebra_simps)
qed simp

lemma digits_acc_small: "n < 10 \<Longrightarrow> digits_acc n acc = n # acc"
  by (subst digits_acc.simps) simp

lemma digits_acc_big: "\<not> n < 10 \<Longrightarrow> digits_acc n acc = digits_acc (n div 10) (n mod 10 # acc)"
  by (subst digits_acc.simps) simp


lemma digits_value_Cons: "digits_value (d # ds) = d * 10 ^ length ds + digits_value ds"
  using foldl_digits_shift[of 0 d ds] by (simp add: digits_value_def)

lemma digits_acc_value: "digits_value (digits_acc n acc) = n * 10 ^ length acc + digits_value acc"
proof (induction n acc rule: digits_acc.induct)
  case (1 n acc)
  show ?case
  proof (cases "n < 10")
    case True
    then show ?thesis by (simp add: digits_acc_small digits_value_Cons)
  next
    case False
    have eq: "n div 10 * 10 ^ Suc (length acc) + n mod 10 * 10 ^ length acc = n * 10 ^ length acc"
    proof -
      have "n div 10 * 10 ^ Suc (length acc) + n mod 10 * 10 ^ length acc
            = (10 * (n div 10) + n mod 10) * 10 ^ length acc"
        by (simp only: distrib_right power_Suc mult.assoc mult.commute[of "n div 10"])
      then show ?thesis by (simp only: mult_div_mod_eq)
    qed
    have "digits_value (digits_acc n acc) = digits_value (digits_acc (n div 10) (n mod 10 # acc))"
      by (simp add: digits_acc_big False)
    also have "\<dots> = n div 10 * 10 ^ Suc (length acc) + digits_value (n mod 10 # acc)"
      using "1"[OF False] by simp
    also have "\<dots> = (n div 10 * 10 ^ Suc (length acc) + n mod 10 * 10 ^ length acc) + digits_value acc"
      by (simp add: digits_value_Cons)
    finally show ?thesis using eq by simp
  qed
qed

lemma digits_acc_range: "\<forall>d \<in> set acc. d < 10 \<Longrightarrow> \<forall>d \<in> set (digits_acc n acc). d < 10"
proof (induction n acc rule: digits_acc.induct)
  case (1 n acc)
  show ?case
  proof (cases "n < 10")
    case True
    have "\<forall>d \<in> set (n # acc). d < 10" using "1.prems" True by simp
    then show ?thesis by (simp only: digits_acc_small[OF True])
  next
    case False
    have "\<forall>d \<in> set (n mod 10 # acc). d < 10" using "1.prems" by simp
    then have "\<forall>d \<in> set (digits_acc (n div 10) (n mod 10 # acc)). d < 10" by (rule "1.IH"[OF False])
    then show ?thesis by (simp only: digits_acc_big[OF False])
  qed
qed

lemma digits_acc_lead: "0 < n \<Longrightarrow> hd (digits_acc n acc) \<noteq> 0"
proof (induction n acc rule: digits_acc.induct)
  case (1 n acc)
  show ?case
  proof (cases "n < 10")
    case True
    then show ?thesis using "1.prems" digits_acc_small[OF True] by simp
  next
    case False
    have "0 < n div 10" using False by simp
    then show ?thesis using "1.IH"[OF False] digits_acc_big[OF False] by simp
  qed
qed

lemma digits_acc_nonempty: "digits_acc n acc \<noteq> []"
  by (induction n acc rule: digits_acc.induct) (metis digits_acc_big digits_acc_small list.distinct(1))

lemma digit_char_code: "d < 10 \<Longrightarrow> of_char (digit_char d) = d + 48"
  by (simp add: digit_char_def)

text \<open>
  The printer's \<open>str(i)\<close> of a non-negative int round-trips: it is a string of the digit
  characters \<open>0\<close>--\<open>9\<close>, without a leading zero when \<open>i > 0\<close>, whose decimal value is \<open>i\<close>.
\<close>

lemma py_str_int_roundtrip:
  assumes "0 \<le> i"
  shows "digits_value (map (\<lambda>c. of_char c - 48) (py_str_int i)) = nat i
       \<and> (\<forall>c \<in> set (py_str_int i). 48 \<le> (of_char c :: nat) \<and> (of_char c :: nat) \<le> 57)
       \<and> (0 < i \<longrightarrow> hd (py_str_int i) \<noteq> CHR ''0'')"
proof -
  let ?ds = "digits_acc (nat i) []"
  have ds: "py_str_int i = map digit_char ?ds" using assms by (simp add: py_str_int_def)
  have r: "\<forall>d \<in> set ?ds. d < 10" by (rule digits_acc_range) simp
  have m: "map (\<lambda>c. of_char c - 48) (map digit_char ?ds) = ?ds"
    using r by (induction ?ds) (auto simp: digit_char_code map_idI)
  have v: "digits_value ?ds = nat i" using digits_acc_value[of "nat i" "[]"] by (simp add: digits_value_def)
  have lead: "0 < i \<Longrightarrow> hd (map digit_char ?ds) \<noteq> CHR ''0''"
  proof -
    assume "0 < i"
    then have "hd ?ds \<noteq> 0" "?ds \<noteq> []" using digits_acc_lead[of "nat i" "[]"] digits_acc_nonempty by auto
    moreover have "hd ?ds < 10" using r \<open>?ds \<noteq> []\<close> by simp
    ultimately show ?thesis using digit_char_code[of "hd ?ds"] by (auto simp: hd_map)
  qed
  show ?thesis using ds m v lead r by (auto simp: digit_char_code)
qed

declare digits_acc.simps [simp]

lemma py_str_int_roundtrip_sample:
  "py_str_int 120 = ''120'' \<and> digits_value (map (\<lambda>c. of_char c - 48) ''120'') = 120"
proof -
  have s: "py_str_int 120 = ''120''" by code_simp
  show ?thesis using py_str_int_roundtrip[of 120] s by simp
qed

end
