(* ===== verification/QueryService.thy ===== *)
theory QueryService
  imports Normalize
begin

text \<open>
  \<open>receive_and_send_query\<close> of \<open>src/src/query_service/query_listener.py\<close> (lines
  114--127): one invocation reads stdin, and prints either the fixed format diagnostic,
  or the answer, or (after a database error) the error line before it crashes. Its
  inputs are the text on stdin, the JSON decoder, the result of \<open>get_db_connection()\<close>,
  the store's \<open>find_all_paths\<close> and the content of \<open>graph_id.txt\<close>; its result is the
  outcome and the printed lines.
\<close>

definition msg_invalid_format :: string where
  "msg_invalid_format =
     ''Invalid format. Please try again. Valid format looks like: ''
     @ ''{\"queries\": [{\"paths\": {\"start\": \"node id\",\"end\": \"node id\"}}, ''
     @ ''{\"cheapest\": {\"start\": \"node id\", \"end\": \"node id\"}}]}''"

text \<open>
  What \<open>process_queries\<close> leaves behind: the line it printed on a database error (line
  45) and the value it returned (line 46 returns \<open>None\<close>, line 47 the results dict).
\<close>

definition pq_printed :: "pq_result \<Rightarrow> string list" where
  "pq_printed r = (case r of PQ_DbError m \<Rightarrow> [''Database error: '' @ m] | PQ_Results st \<Rightarrow> [])"

definition pq_value :: "pq_result \<Rightarrow> (rkey \<times> row list) list option" where
  "pq_value r = (case r of PQ_DbError m \<Rightarrow> None | PQ_Results st \<Rightarrow> Some (results st))"

definition receive_and_send_query ::
  "(string \<Rightarrow> json option) \<Rightarrow> unit pyres \<Rightarrow> path_lookup \<Rightarrow> string option \<Rightarrow> string \<Rightarrow> outcome \<times> string list" where
  "receive_and_send_query loads conn fap file query_str =
     (case verify_valid_json loads query_str of
        None \<Rightarrow> (Finished, [msg_invalid_format])
      | Some query \<Rightarrow>
          if \<not> py_truthy query then (Finished, [msg_invalid_format])
          else (case verify_correct_query_format query of
                  Inl exc \<Rightarrow> (Crashed exc, [])
                | Inr False \<Rightarrow> (Finished, [msg_invalid_format])
                | Inr True \<Rightarrow>
                    (case process_queries conn fap file query of
                       Inl exc \<Rightarrow> (Crashed exc, [])
                     | Inr r \<Rightarrow>
                         (case tidy_up_results_py (pq_value r) of
                            Inl exc \<Rightarrow> (Crashed exc, pq_printed r)
                          | Inr tidy \<Rightarrow> (Finished, pq_printed r @ [format_results_to_json tidy])))))"

section \<open>Sample invocations\<close>

text \<open>
  A batch of one \<open>paths\<close> query from \<open>a\<close> to \<open>b\<close> (spec section 8); a decoder that
  returns a fixed value; a store whose lookups fail.
\<close>

definition batch_one :: json where
  "batch_one = JObj [(''queries'', JArr [pq ''paths'' ''a'' ''b''])]"

definition loads_const :: "json \<Rightarrow> string \<Rightarrow> json option" where
  "loads_const v s = Some v"

definition fap_fails :: path_lookup where
  "fap_fails s e g = Inl ''connection lost''"

section \<open>Lemmas\<close>

text \<open>
  C11: an input that is not JSON, a falsy JSON value, or a batch the format check rejects
  gets the fixed diagnostic line and nothing else, whatever the store and the graph-id
  file hold: no lookup is made.
\<close>

theorem query_rejected_no_lookup:
  assumes "loads s = None \<or> (\<exists>q. loads s = Some q \<and> (\<not> py_truthy q \<or> verify_correct_query_format q = Inr False))"
  shows "receive_and_send_query loads conn fap file s = (Finished, [msg_invalid_format])"
  using assms by (auto simp: receive_and_send_query_def verify_valid_json_def)

theorem query_rejected_no_lookup_witness:
  "receive_and_send_query (loads_const batch_missing_end) (Inr ()) fap_one_row (Some ''g0'') ''{...}'' =
     (Finished, [msg_invalid_format])"
proof -
  have "verify_correct_query_format batch_missing_end = Inr False"
    by (simp add: batch_missing_end_def verify_correct_query_format_def verify_query_def has_start_end_def)
  then show ?thesis
    using query_rejected_no_lookup[of "loads_const batch_missing_end" "''{...}''"]
    by (simp add: loads_const_def batch_missing_end_def)
qed

text \<open>
  C12: when the store's lookups fail with a database error, every accepted batch whose
  first query has hashable nodes ends the process in a traceback: \<open>process_queries\<close>
  prints the error and returns \<open>None\<close>, and \<open>tidy_up_results(None)\<close> raises
  \<open>AttributeError\<close> (line 54); no answer is printed.
\<close>

theorem query_db_error_crashes:
  assumes "loads s = Some q" and "py_truthy q" and "verify_correct_query_format q = Inr True"
    and "file = Some f" and "json_getitem q ''queries'' = Inr (JArr (q1 # qs))"
    and "get_query_type_and_nodes q1 = Inr (qt, a, b)" and "hashable a" and "hashable b"
    and "\<forall>s e g. fap s e g = Inl m"
  shows "receive_and_send_query loads (Inr ()) fap file s = (Crashed AttributeError, [''Database error: '' @ m])"
proof -
  have "process_queries (Inr ()) fap file q = Inr (PQ_DbError m)"
    using assms(4-9)
    by (simp add: process_queries_def get_graph_id_def empty_dispatch_def res_lookup_def)
  then show ?thesis
    using assms(1-3)
    by (simp add: receive_and_send_query_def verify_valid_json_def tidy_up_results_py_def
        pq_value_def pq_printed_def)
qed

theorem query_db_error_crashes_witness:
  "receive_and_send_query (loads_const batch_shared) (Inr ()) fap_fails (Some ''g0'') ''{...}'' =
     (Crashed AttributeError, [''Database error: connection lost''])"
proof -
  have f: "verify_correct_query_format batch_shared = Inr True"
    by (simp add: batch_shared_def pq_def verify_correct_query_format_def verify_query_def has_start_end_def)
  have l: "loads_const batch_shared ''{...}'' = Some batch_shared" by (simp add: loads_const_def)
  have t: "py_truthy batch_shared" by (simp add: batch_shared_def)
  have g: "json_getitem batch_shared ''queries'' =
             Inr (JArr (pq ''paths'' ''a'' ''b'' # [pq ''cheapest'' ''a'' ''b'', pq ''paths'' ''a'' ''b'']))"
    by (simp add: batch_shared_def)
  have q: "get_query_type_and_nodes (pq ''paths'' ''a'' ''b'') = Inr (Paths, JStr ''a'', JStr ''b'')"
    by (simp add: get_query_type_and_nodes_def pq_def)
  have h: "hashable (JStr ''a'')" "hashable (JStr ''b'')" by simp_all
  have e: "\<forall>s e g. fap_fails s e g = Inl ''connection lost''" by (simp add: fap_fails_def)
  show ?thesis
    using query_db_error_crashes[of "loads_const batch_shared" "''{...}''" batch_shared "Some ''g0''" "''g0''",
        OF l t f refl g q h e] by simp
qed

text \<open>
  C13: a query whose \<open>paths\<close> or \<open>cheapest\<close> value is a string passes the format check
  exactly when the string contains \<open>start\<close> and \<open>end\<close> as substrings (\<open>"start" in v\<close>
  is a substring test on a string); when it is the first query of an accepted batch,
  \<open>get_query_type_and_nodes\<close> then indexes the string with \<open>"start"\<close> and raises
  \<open>TypeError\<close>: no diagnostic and no answer are printed.
\<close>

theorem query_string_sub_crashes:
  assumes "loads s = Some b" and "json_getitem b ''queries'' = Inr (JArr (JObj [(k, JStr v)] # qs))"
    and "k = ''paths'' \<or> k = ''cheapest''" and "file = Some f"
    and "verify_correct_query_format b = Inr True"
  shows "py_substr ''start'' v \<and> py_substr ''end'' v
       \<and> receive_and_send_query loads (Inr ()) fap file s = (Crashed TypeError, [])"
proof -
  obtain kvs where b: "b = JObj kvs" and kv: "map_of (rev kvs) ''queries'' = Some (JArr (JObj [(k, JStr v)] # qs))"
    using json_getitem_Inr[OF assms(2)] by blast
  have t: "py_truthy b" using b kv by (cases kvs) auto
  have vq: "verify_query (JObj [(k, JStr v)]) = Inr True"
    using assms(5) assms(2) b
    by (auto simp: verify_correct_query_format_def res_bind_Inr_iff split: if_splits)
  then have sub: "py_substr ''start'' v \<and> py_substr ''end'' v"
    using assms(3) by (auto simp: verify_query_def has_start_end_def res_bind_Inr_iff split: if_splits)
  have "process_queries (Inr ()) fap file b = Inl TypeError"
    using assms(2-4)
    by (auto simp: process_queries_def get_graph_id_def get_query_type_and_nodes_def)
  then show ?thesis
    using sub assms(1) assms(5) t by (simp add: receive_and_send_query_def verify_valid_json_def)
qed

theorem query_string_sub_crashes_witness:
  "verify_correct_query_format batch_str_sub = Inr True
   \<and> receive_and_send_query (loads_const batch_str_sub) (Inr ()) fap_one_row (Some ''g0'') ''{...}'' =
       (Crashed TypeError, [])"
proof -
  have l: "loads_const batch_str_sub ''{...}'' = Some batch_str_sub" by (simp add: loads_const_def)
  have g: "json_getitem batch_str_sub ''queries'' = Inr (JArr (JObj [(''paths'', JStr ''startend'')] # []))"
    by (simp add: batch_str_sub_def)
  have v: "verify_correct_query_format batch_str_sub = Inr True"
    by (simp add: batch_str_sub_def format_eval)
  show ?thesis
    using query_string_sub_crashes[of "loads_const batch_str_sub" "''{...}''" batch_str_sub "''paths''"
        "''startend''" "[]" "Some ''g0''" "''g0''" fap_one_row, OF l g disjI1[OF refl] refl v] v
    by simp
qed

text \<open>
  C21: when \<open>get_db_connection()\<close> fails, a well-formed batch ends the process with the
  connection error and prints nothing at all: the connection is opened outside the
  \<open>try\<close> of the loop, so neither the \<open>Database error\<close> line nor an answer is printed.
\<close>

theorem query_connect_fails_silently:
  assumes "loads s = Some q" and "py_truthy q" and "verify_correct_query_format q = Inr True"
    and "file = Some f"
  shows "receive_and_send_query loads (Inl (DbError m)) fap file s = (Crashed (DbError m), [])"
  using assms
  by (simp add: receive_and_send_query_def verify_valid_json_def process_queries_def get_graph_id_def)

theorem query_connect_fails_silently_witness:
  "verify_correct_query_format batch_one = Inr True \<and>
   receive_and_send_query (loads_const batch_one) (Inl (DbError ''could not connect to server''))
     fap_one_row (Some ''g0'') ''{...}'' = (Crashed (DbError ''could not connect to server''), [])"
proof -
  have v: "verify_correct_query_format batch_one = Inr True"
    by (simp add: batch_one_def verify_correct_query_format_def verify_query_def has_start_end_def pq_def)
  have l: "loads_const batch_one ''{...}'' = Some batch_one" by (simp add: loads_const_def)
  have t: "py_truthy batch_one" by (simp add: batch_one_def)
  show ?thesis
    using v query_connect_fails_silently[of "loads_const batch_one" "''{...}''" batch_one
        "Some ''g0''" "''g0''" "''could not connect to server''" fap_one_row, OF l t v refl] by simp
qed

end
