(* ===== verification/Spec2Isabelle.thy ===== *)
theory Spec2Isabelle
  imports Manager QueryService
begin

text \<open>
  A verification library for the graph ingest and path-query service of the repository
  (Python, \<open>src/\<close>). The program has two entry points, which share only the file
  \<open>graph_id.txt\<close> and the PostgreSQL store:
  \<^item> \<open>src/manager.py\<close> runs \<open>set_up_graph_data\<close> of \<open>src/src/downloader/setup.py\<close> once
    and then waits on stdin. The ingest downloads an XML graph document from the endpoint
    of \<open>src/config.py\<close> (\<open>download_graph\<close>), validates it (\<open>verify_graph_data\<close>), extracts
    its nodes and edges (\<open>extract_graph_data\<close>), checks id uniqueness
    (\<open>verify_unique_ids\<close>), writes the active graph id to \<open>graph_id.txt\<close>
    (\<open>set_graph_id\<close>), asks the store whether the id exists (\<open>graph_id_exists\<close>) and
    inserts the graph (\<open>insert_graph_data\<close>); both store calls connect through
    \<open>get_db_connection\<close> of \<open>src/src/db_connection/postgres.py\<close>.
  \<^item> \<open>src/src/query_service/query_listener.py\<close> reads one JSON query batch from stdin
    (\<open>receive_and_send_query\<close>), checks it (\<open>verify_valid_json\<close>,
    \<open>verify_correct_query_format\<close>), reads the active graph id (\<open>get_graph_id\<close>), answers
    the batch with one call of the store's \<open>find_all_paths\<close> per distinct node pair
    (\<open>process_queries\<close>), reshapes the rows (\<open>tidy_up_results\<close>, \<open>format_paths_result\<close>,
    \<open>format_cheapest_result\<close>) and prints them (\<open>format_results_to_json\<close>).

  Theories, leaves first, with the part of the code each one models:
  \<^item> \<open>Prelude\<close>: Python exceptions as values (\<open>py_exc\<close>, \<open>'a pyres = py_exc + 'a\<close>, the
    bind \<open>res_bind\<close>), a process \<open>outcome\<close> (\<open>Finished\<close> or \<open>Crashed\<close>), \<open>str\<close>-or-\<open>None\<close>
    values (\<open>pystr\<close>), \<open>str.strip\<close> and substring \<open>in\<close>, shared list lemmas.
  \<^item> \<open>Xml\<close>: the ElementTree elements the code reads (\<open>findall\<close>, \<open>find\<close>, \<open>.text\<close>),
    and the addition of a child to a block (\<open>add_to_block\<close>) that C3 quantifies over.
  \<^item> \<open>Schema\<close>: \<open>verify_graph_data\<close> (setup.py lines 48--139), one constructor of
    \<open>verify_error\<close> per printed diagnostic, with the declarative schema \<open>graph_doc_ok\<close>.
  \<^item> \<open>Extract\<close>: \<open>extract_graph_data\<close> and \<open>verify_unique_ids\<close> (lines 142--176), Python
    floats as \<open>pyfloat\<close> (infinities and NaN included), and what the extractor does
    with the children the validator does not read.
  \<^item> \<open>Store\<close>: the tables as row lists, the \<open>SELECT\<close> of \<open>graph_id_exists\<close> and the
    \<open>INSERT\<close>s of \<open>insert_graph_data\<close>; the integrity \<open>store_inv\<close> and the abstract view
    \<open>store_abs\<close> (graph id to name, nodes and edges).
  \<^item> \<open>Environment\<close>: \<open>os.getenv\<close>, \<open>config.graph_data_endpoint\<close>, \<open>download_graph\<close>
    (the HTTP response is a function of the URL) and \<open>get_db_connection\<close>.
  \<^item> \<open>Ingest\<close>: \<open>set_up_graph_data\<close> (lines 10--32) as a function on a \<open>world\<close> record of
    \<open>graph_id.txt\<close>, store and stdout, in an \<open>ingest_env\<close> of the surroundings; each
    store call opens a connection (\<open>open_connection\<close>) first.
  \<^item> \<open>Manager\<close>: \<open>run_setup\<close>, \<open>wait_for_queries\<close> and the main block of \<open>manager.py\<close>, and
    the worlds reachable by any sequence of process runs (\<open>inductive ingest_reach\<close>).
  \<^item> \<open>Json\<close>: the values of \<open>json.loads\<close> and the Python operations on them (\<open>in\<close>,
    indexing, iteration, hashing as a dict key, where \<open>True == 1\<close>).
  \<^item> \<open>QueryFormat\<close>: \<open>verify_correct_query_format\<close>, \<open>verify_valid_json\<close> (lines 89--111),
    with the declarative format \<open>batch_ok\<close>.
  \<^item> \<open>Dispatch\<close>: \<open>get_graph_id\<close>, \<open>get_query_type_and_nodes\<close>, \<open>process_queries\<close> (lines
    9--48); the results dict is an insertion-ordered association list and the state
    records the lookups issued.
  \<^item> \<open>Normalize\<close>: \<open>tidy_up_results\<close> and the formatters (lines 51--86), with a printer of
    \<open>json.dumps(indent=2)\<close>; \<open>tidy_up_results_py\<close> is the call on the value
    \<open>process_queries\<close> returned, \<open>None\<close> included.
  \<^item> \<open>QueryService\<close>: \<open>receive_and_send_query\<close> (lines 114--127) as a function from stdin
    text, the decoder, the result of \<open>get_db_connection()\<close> and the store's lookups to
    the outcome and the printed lines.
  \<^item> This theory: the properties that span the two entry points.

  What the lemma groups show (claim ids in the text before each theorem). Validation
  and extraction: the validator accepts exactly the declarative schema (C1); extraction
  is total and consistent on validated documents whose blocks hold only \<open>node\<close>
  children (C2), but for every validated document a child with another tag added to
  \<open>nodes\<close> or \<open>edges\<close> keeps it valid and is read by the extractor (C3); extracted costs
  are never negative, though NaN is kept (C18). One ingest run: it never writes a
  partial graph (C4), its success path sets the active id, inserts the graph and prints
  one line (C20); because \<open>set_graph_id\<close> runs first, the active id is rewritten on a
  rejected run (C6), left dangling by a failed insert (C7), and rewritten when the
  database refuses the connection, which leaves the store unchanged (C15). Runs over
  time: store integrity holds in every reachable world (C5), \<open>graph_id.txt\<close> exists once
  a graph is stored (C17), and every manager run refines the abstract registry, adding
  at most the extracted graph at a fresh id (C16). Queries: the format check accepts
  every documented batch (C10), and a string sub-value passes it exactly when it
  contains \<open>start\<close> and \<open>end\<close>, then crashes the dispatcher (C13); the dispatcher issues
  one lookup per distinct ordered pair, as dict keys compare (\<open>True == 1\<close>), and
  answers each query with its rows (C8, C9); the entry point rejects without a lookup
  (C11), ends in \<open>AttributeError\<close> after a database error in a lookup (C12) and crashes
  silently on a refused connection (C21). Across the entry points: a successful ingest
  is queried under its id, stripped (C19), so an id with surrounding whitespace is
  stored under one id and queried under another (C14).

  Loops are structural recursions over lists (the validator, the extractor, the
  dispatcher loop), and the integer printer recurses on \<open>n div 10\<close>, so every function
  is total: no fuel is needed. Repeated runs are not bounded: reachability is an
  inductive set and its properties are proved by rule induction.

  Not modelled, and why: the network (\<open>requests.get\<close> is a function from URL to
  response; its own exceptions, e.g. a refused connection, are not modelled); the XML
  parser (a parameter from text to tree, \<open>None\<close> for a parse error) and \<open>float()\<close> (a
  parameter); \<open>psycopg2\<close> beyond whether a connection is accepted and an insert commits
  (the table constraints are not in the repository; both store calls of one run see the
  same connection verdict); the SQL function
  \<open>find_all_paths\<close>, a collaborator whose rows are an input; \<open>json.loads\<close> (a parameter)
  and JSON floats; a NaN path cost returned by \<open>find_all_paths\<close> (row costs are real
  numbers, so no property of the cheapest answer is claimed); the line read by \<open>input()\<close>, of which only its presence matters; the
  tests under \<open>src/tests\<close>. The two processes are not interleaved below the level of one
  run of each: the query service reads \<open>graph_id.txt\<close> as a run of the ingest leaves it.
\<close>

section \<open>Across the two entry points\<close>

text \<open>
  A document whose graph id carries a leading space (\<open><id> g0</id>\<close>: ElementTree keeps
  the space in \<open>.text\<close>), otherwise the \<open>valid\<close> sample.
\<close>

definition sample_spaced_id :: element where
  "sample_spaced_id =
     Element ''graph'' None
       [Element ''id'' (Some '' g0'') [], Element ''name'' (Some ''Name'') [],
        Element ''nodes'' None
          [Element ''node'' None [Element ''id'' (Some ''a'') [], Element ''name'' (Some ''A name'') []]],
        Element ''edges'' None []]"

definition env_spaced_id :: ingest_env where
  "env_spaced_id = sample_env\<lparr>parser := (\<lambda>_. Some sample_spaced_id)\<rparr>"

text \<open>
  C14: the ingest writes the graph id to \<open>graph_id.txt\<close> and the store verbatim, and the
  query service strips it (line 11). After any successful ingest of a graph whose id
  carries surrounding whitespace, while the stripped id names no stored graph, every
  lookup of a later query batch asks for a graph the store does not hold, although the
  ingested graph is stored.
\<close>

theorem spaced_graph_id_lost:
  assumes run: "set_up_graph_data env w = (res, w')" and ins: "stdout w' = stdout w @ [msg_inserted]"
    and gf: "graph_file w' = Some g" and sp: "py_strip g \<noteq> g"
    and absent: "\<not> graph_id_exists (Some (py_strip g)) (db w)"
    and pq: "process_queries conn fap (graph_file w') b = Inr (PQ_Results st)"
  shows "graph_id_exists (Some g) (db w')
       \<and> (\<forall>l \<in> set (lookups st). \<not> graph_id_exists (Some (snd (snd l))) (db w'))"
proof -
  obtain gd where gd: "fst gd = Some g" "db w' = store_insert gd (db w)"
    using set_up_graph_data_inserted[OF run ins] gf by auto
  have l: "\<forall>l \<in> set (lookups st). snd (snd l) = py_strip g"
    using process_queries_graph_id[OF pq] gf by auto
  show ?thesis using gd l sp absent by (auto simp: graph_id_exists_insert)
qed

text \<open>
  C19: the two entry points agree on a successful ingest: after a run that printed the
  success line, \<open>graph_id.txt\<close> names a graph of the store, and every lookup a later
  query batch issues is in that graph id as \<open>get_graph_id\<close> strips it (so in the stored
  graph exactly when the id has no surrounding whitespace, see C14).
\<close>

theorem ingest_then_query:
  assumes run: "set_up_graph_data env w = (res, w')" and ins: "stdout w' = stdout w @ [msg_inserted]"
    and pq: "process_queries conn fap (graph_file w') b = Inr (PQ_Results st)"
  shows "\<exists>g. graph_file w' = Some g \<and> graph_id_exists (Some g) (db w')
           \<and> (\<forall>l \<in> set (lookups st). snd (snd l) = py_strip g)"
proof -
  obtain gd g where g: "graph_file w' = Some g" and gd: "fst gd = Some g" "db w' = store_insert gd (db w)"
    using set_up_graph_data_inserted[OF run ins] by blast
  then have e: "graph_id_exists (Some g) (db w')" by (simp add: graph_id_exists_insert)
  show ?thesis using g e process_queries_graph_id[OF pq] by auto
qed

theorem ingest_then_query_witness:
  "\<exists>st. set_up_graph_data sample_env init_world =
          (Finished, \<lparr>graph_file = Some ''g0'', db = store_insert sample_data empty_store, stdout = [msg_inserted]\<rparr>)
     \<and> process_queries (Inr ()) fap_one_row (Some ''g0'') batch_one = Inr (PQ_Results st)
     \<and> graph_id_exists (Some ''g0'') (store_insert sample_data empty_store)
     \<and> (\<forall>l \<in> set (lookups st). snd (snd l) = ''g0'')"
proof -
  let ?st = "\<lparr>results = [((JStr ''a'', JStr ''b'', Paths), [([''a'', ''b''], 1)])],
              lookups = [(JStr ''a'', JStr ''b'', ''g0'')]\<rparr>"
  have pq: "process_queries (Inr ()) fap_one_row (graph_file \<lparr>graph_file = Some ''g0'',
              db = store_insert sample_data empty_store, stdout = [msg_inserted]\<rparr>) batch_one =
            Inr (PQ_Results ?st)"
    by (simp add: disp_eval batch_one_def fap_one_row_def)
  have m: "stdout \<lparr>graph_file = Some ''g0'', db = store_insert sample_data empty_store,
             stdout = [msg_inserted]\<rparr> = stdout init_world @ [msg_inserted]"
    by (simp add: init_world_def)
  show ?thesis
    using ingest_then_query[OF sample_run_first m pq] sample_run_first pq
    by (auto simp: py_strip_def py_isspace_def)
qed

theorem spaced_graph_id_lost_witness:
  "set_up_graph_data env_spaced_id init_world =
     (Finished, \<lparr>graph_file = Some '' g0'',
                 db = store_insert (Some '' g0'', Some ''Name'', [(Some ''a'', Some ''A name'')], []) empty_store,
                 stdout = [msg_inserted]\<rparr>)
   \<and> graph_id_exists (Some '' g0'')
       (store_insert (Some '' g0'', Some ''Name'', [(Some ''a'', Some ''A name'')], []) empty_store)
   \<and> \<not> graph_id_exists (Some ''g0'')
       (store_insert (Some '' g0'', Some ''Name'', [(Some ''a'', Some ''A name'')], []) empty_store)"
proof -
  let ?w = "\<lparr>graph_file = Some '' g0'',
             db = store_insert (Some '' g0'', Some ''Name'', [(Some ''a'', Some ''A name'')], []) empty_store,
             stdout = [msg_inserted]\<rparr>"
  let ?st = "\<lparr>results = [((JStr ''a'', JStr ''b'', Paths), [([''a'', ''b''], 1)])],
              lookups = [(JStr ''a'', JStr ''b'', ''g0'')]\<rparr>"
  have run: "set_up_graph_data env_spaced_id init_world = (Finished, ?w)"
    by (simp add: env_spaced_id_def sample_env_def sample_spaced_id_def schema_eval run_eval
        init_world_def empty_store_def store_insert_def)
  have m: "stdout ?w = stdout init_world @ [msg_inserted]" by (simp add: init_world_def)
  have f: "graph_file ?w = Some '' g0''" by simp
  have strip: "py_strip '' g0'' = ''g0''" by (simp add: py_strip_def py_isspace_def)
  have sp: "py_strip '' g0'' \<noteq> '' g0''" using strip by simp
  have ab: "\<not> graph_id_exists (Some (py_strip '' g0'')) (db init_world)"
    by (simp add: init_world_def empty_store_def graph_id_exists_def)
  have pq: "process_queries (Inr ()) fap_one_row (graph_file ?w) batch_one = Inr (PQ_Results ?st)"
    by (simp add: disp_eval batch_one_def fap_one_row_def)
  show ?thesis using spaced_graph_id_lost[OF run m f sp ab pq] run strip by simp
qed

end
